theory Spec2Isabelle
  imports Main "HOL-Library.AList"
begin

section \<open>JavaScript values\<close>

text \<open>
  The model covers the relay broker, the egress executor and the ingress adapter:
  their state, the messages they send and the calls they make on HTTP response
  handles. Console output, the listening sockets, the construction of the target URL
  and the process signals are left out.
\<close>

text \<open>
  The three processes exchange JSON texts. A parsed message is a JavaScript value.
  Objects and arrays carry the identity of the heap object (a number), because a
  JavaScript \<^verbatim>\<open>Map\<close> compares object keys by reference: two parses of the same text
  give two different objects. With the identity in the value, HOL equality is the
  key comparison of \<^verbatim>\<open>Map\<close> (SameValueZero) and of \<^verbatim>\<open>===\<close>.
  Numbers are the integers (no code path below computes with them).
  \<open>JUndefined\<close> is the value of a missing property.
\<close>

datatype jsval =
    JUndefined
  | JNull
  | JBool bool
  | JNum int
  | JStr string
  | JArr nat "jsval list"
  | JObj nat "(string \<times> jsval) list"

type_synonym props = "(string \<times> jsval) list"

text \<open>Truthiness, as used by \<^verbatim>\<open>!x\<close>, \<^verbatim>\<open>x || y\<close> and \<^verbatim>\<open>if (x)\<close>.\<close>

fun truthy :: "jsval \<Rightarrow> bool" where
  "truthy JUndefined = False"
| "truthy JNull = False"
| "truthy (JBool b) = b"
| "truthy (JNum n) = (n \<noteq> 0)"
| "truthy (JStr s) = (s \<noteq> [])"
| "truthy (JArr r xs) = True"
| "truthy (JObj r fs) = True"

text \<open>\<^verbatim>\<open>a || b\<close>\<close>

definition js_or :: "jsval \<Rightarrow> jsval \<Rightarrow> jsval" where
  "js_or a b = (if truthy a then a else b)"

text \<open>
  Property read \<^verbatim>\<open>message.name\<close> for the property names the programs use
  (none of them is defined on a prototype): the own property of an object, undefined
  on every other non-null value. On \<^verbatim>\<open>null\<close> the read throws; the callers below
  check that case where the source's first read happens.
\<close>

fun field :: "jsval \<Rightarrow> string \<Rightarrow> jsval" where
  "field (JObj r fs) name = (case map_of fs name of Some v \<Rightarrow> v | None \<Rightarrow> JUndefined)"
| "field v name = JUndefined"

text \<open>\<^verbatim>\<open>typeof v === 'object'\<close>\<close>

fun typeof_object :: "jsval \<Rightarrow> bool" where
  "typeof_object JNull = True"
| "typeof_object (JArr r xs) = True"
| "typeof_object (JObj r fs) = True"
| "typeof_object v = False"

text \<open>Decimal digits of a number, as a template literal prints it.\<close>

fun show_nat :: "nat \<Rightarrow> string" where
  "show_nat n =
     (if n < 10 then [''0123456789'' ! n]
      else show_nat (n div 10) @ [''0123456789'' ! (n mod 10)])"

declare show_nat.simps [simp del]

text \<open>
  \<^verbatim>\<open>Object.entries(v)\<close> and the spread \<^verbatim>\<open>{...v}\<close>: the own enumerable properties.
  A string has its characters, an array its elements, under their indices.
\<close>

fun indexed :: "nat \<Rightarrow> jsval list \<Rightarrow> props" where
  "indexed i [] = []"
| "indexed i (x # xs) = (show_nat i, x) # indexed (Suc i) xs"

fun own_entries :: "jsval \<Rightarrow> props" where
  "own_entries (JObj r fs) = fs"
| "own_entries (JArr r xs) = indexed 0 xs"
| "own_entries (JStr s) = indexed 0 (map (\<lambda>c. JStr [c]) s)"
| "own_entries v = []"

text \<open>
  \<^verbatim>\<open>JSON.stringify\<close> of an object literal: a property whose value is undefined
  is left out of the text. The text is represented by the properties it carries.
\<close>

definition JSON_stringify :: "props \<Rightarrow> props" where
  "JSON_stringify fs = filter (\<lambda>kv. snd kv \<noteq> JUndefined) fs"

section \<open>The JavaScript Map\<close>

text \<open>
  A \<^verbatim>\<open>Map\<close> is its list of entries in insertion order: \<^verbatim>\<open>get\<close> is \<open>map_of\<close>,
  \<^verbatim>\<open>set\<close> replaces the value of a present key in place and appends a new one,
  \<^verbatim>\<open>delete\<close> removes the entry of the key.
\<close>

type_synonym ('k, 'v) jsmap = "('k \<times> 'v) list"

abbreviation Map_get :: "('k, 'v) jsmap \<Rightarrow> 'k \<Rightarrow> 'v option" where
  "Map_get m k \<equiv> map_of m k"

abbreviation Map_set :: "'k \<Rightarrow> 'v \<Rightarrow> ('k, 'v) jsmap \<Rightarrow> ('k, 'v) jsmap" where
  "Map_set k v m \<equiv> AList.update k v m"

abbreviation Map_delete :: "'k \<Rightarrow> ('k, 'v) jsmap \<Rightarrow> ('k, 'v) jsmap" where
  "Map_delete k m \<equiv> AList.delete k m"

definition Map_has :: "('k, 'v) jsmap \<Rightarrow> 'k \<Rightarrow> bool" where
  "Map_has m k = (map_of m k \<noteq> None)"

section \<open>The relay broker (src/server/websocket-server.js)\<close>

text \<open>
  A connection is the identity of its \<^verbatim>\<open>ws\<close> object. What the broker does to a
  socket is an action: the \<^verbatim>\<open>ws\<close> API offers \<^verbatim>\<open>send\<close> and, to end a connection,
  \<^verbatim>\<open>close\<close>/\<^verbatim>\<open>terminate\<close>.
\<close>

type_synonym conn = nat

datatype action = Send conn props | Terminate conn

record pending =
  clientWs :: conn
  originalRequest :: jsval

text \<open>
  The fields of \<^verbatim>\<open>WebSocketRelayServer\<close>; \<open>wsClientId\<close> is the \<^verbatim>\<open>clientId\<close>
  property that \<^verbatim>\<open>handleRegistration\<close> stores on a \<^verbatim>\<open>ws\<close> object.
\<close>

record broker =
  clients :: "(jsval, conn) jsmap"
  master :: "conn option"
  requestId :: nat
  pendingRequests :: "(jsval, pending) jsmap"
  wsClientId :: "conn \<Rightarrow> jsval"

definition broker_init :: broker where
  "broker_init =
     \<lparr>clients = [], master = None, requestId = 0, pendingRequests = [],
      wsClientId = (\<lambda>ws. JUndefined)\<rparr>"

definition handleRegistration :: "broker \<Rightarrow> conn \<Rightarrow> jsval \<Rightarrow> nat \<Rightarrow> broker \<times> action list" where
  "handleRegistration s ws message now =
     (if field message ''role'' = JStr ''master'' then
        (s\<lparr>master := Some ws\<rparr>,
         [Send ws (JSON_stringify [(''type'', JStr ''registered''), (''role'', JStr ''master'')])])
      else if field message ''role'' = JStr ''client'' then
        (let clientId = js_or (field message ''clientId'') (JStr (''client_'' @ show_nat now))
         in (s\<lparr>clients := Map_set clientId ws (clients s),
                wsClientId := (wsClientId s)(ws := clientId)\<rparr>,
             [Send ws (JSON_stringify
                [(''type'', JStr ''registered''), (''role'', JStr ''client''),
                 (''clientId'', clientId)])]))
      else (s, []))"

definition handleRequest :: "broker \<Rightarrow> conn \<Rightarrow> jsval \<Rightarrow> nat \<Rightarrow> broker \<times> action list" where
  "handleRequest s ws message now =
     (case master s of
        None \<Rightarrow>
          (s, [Send ws (JSON_stringify
                 [(''type'', JStr ''error''),
                  (''requestId'', field message ''requestId''),
                  (''error'', JStr ''Master computer not available'')])])
      | Some m \<Rightarrow>
          (let s1 = (if truthy (field message ''requestId'') then s
                     else s\<lparr>requestId := requestId s + 1\<rparr>);
               rid = (if truthy (field message ''requestId'') then field message ''requestId''
                      else JStr (''req_'' @ show_nat (requestId s + 1) @ ''_'' @ show_nat now));
               s2 = s1\<lparr>pendingRequests :=
                         Map_set rid \<lparr>clientWs = ws, originalRequest = message\<rparr>
                           (pendingRequests s1)\<rparr>
           in (s2, [Send m (JSON_stringify
                      [(''type'', JStr ''request''),
                       (''requestId'', rid),
                       (''method'', field message ''method''),
                       (''path'', field message ''path''),
                       (''headers'', field message ''headers''),
                       (''body'', field message ''body''),
                       (''query'', field message ''query'')])])))"

definition handleResponse :: "broker \<Rightarrow> conn \<Rightarrow> jsval \<Rightarrow> broker \<times> action list" where
  "handleResponse s ws message =
     (if Some ws \<noteq> master s then (s, [])
      else
        (case Map_get (pendingRequests s) (field message ''requestId'') of
           None \<Rightarrow> (s, [])
         | Some pendingRequest \<Rightarrow>
             (s\<lparr>pendingRequests :=
                  Map_delete (field message ''requestId'') (pendingRequests s)\<rparr>,
              [Send (clientWs pendingRequest) (JSON_stringify
                 [(''type'', JStr ''response''),
                  (''requestId'', field message ''requestId''),
                  (''statusCode'', field message ''statusCode''),
                  (''headers'', field message ''headers''),
                  (''body'', field message ''body'')])])))"

text \<open>
  The loop of \<^verbatim>\<open>handleDisconnection\<close> walks the entries of the table and deletes,
  from the table, the key of every entry whose \<^verbatim>\<open>clientWs\<close> is the closed socket.
\<close>

fun cleanup :: "conn \<Rightarrow> (jsval \<times> pending) list \<Rightarrow> (jsval, pending) jsmap \<Rightarrow> (jsval, pending) jsmap" where
  "cleanup ws [] m = m"
| "cleanup ws (e # es) m =
     cleanup ws es (if clientWs (snd e) = ws then Map_delete (fst e) m else m)"

definition handleDisconnection :: "broker \<Rightarrow> conn \<Rightarrow> broker" where
  "handleDisconnection s ws =
     (let s1 = (if master s = Some ws then s\<lparr>master := None\<rparr>
                else if truthy (wsClientId s ws)
                  then s\<lparr>clients := Map_delete (wsClientId s ws) (clients s)\<rparr>
                else s)
      in s1\<lparr>pendingRequests := cleanup ws (pendingRequests s1) (pendingRequests s1)\<rparr>)"

text \<open>
  \<^verbatim>\<open>handleMessage\<close>: the switch on \<^verbatim>\<open>message.type\<close>. Reading a property of
  \<^verbatim>\<open>null\<close> throws a TypeError; the result is then \<open>None\<close>.
\<close>

definition handleMessage :: "broker \<Rightarrow> conn \<Rightarrow> jsval \<Rightarrow> nat \<Rightarrow> (broker \<times> action list) option" where
  "handleMessage s ws message now =
     (if message = JNull \<or> message = JUndefined then None
      else if field message ''type'' = JStr ''register'' then Some (handleRegistration s ws message now)
      else if field message ''type'' = JStr ''request'' then Some (handleRequest s ws message now)
      else if field message ''type'' = JStr ''response'' then Some (handleResponse s ws message)
      else Some (s, []))"

text \<open>
  The \<^verbatim>\<open>'message'\<close> listener of a connection. \<open>JSON_parse\<close> stands for
  \<^verbatim>\<open>JSON.parse\<close>: \<open>None\<close> when it throws. The \<^verbatim>\<open>catch\<close> covers the parse and the
  handler alike.
\<close>

definition on_message ::
  "('d \<Rightarrow> jsval option) \<Rightarrow> broker \<Rightarrow> conn \<Rightarrow> 'd \<Rightarrow> nat \<Rightarrow> broker \<times> action list" where
  "on_message JSON_parse s ws data now =
     (case JSON_parse data of
        None \<Rightarrow> (s, [Send ws (JSON_stringify [(''error'', JStr ''Invalid JSON message'')])])
      | Some message \<Rightarrow>
          (case handleMessage s ws message now of
             None \<Rightarrow> (s, [Send ws (JSON_stringify [(''error'', JStr ''Invalid JSON message'')])])
           | Some r \<Rightarrow> r))"

text \<open>
  The events of a broker run: a message on a connection (the payload is given by what
  \<^verbatim>\<open>JSON.parse\<close> makes of it, \<open>None\<close> when it throws; with the clock reading
  \<^verbatim>\<open>Date.now()\<close>), and the \<^verbatim>\<open>'close'\<close> and \<^verbatim>\<open>'error'\<close> events of a connection.
\<close>

datatype event = Message conn "jsval option" nat | Close conn | Error conn

fun broker_step :: "broker \<Rightarrow> event \<Rightarrow> broker \<times> action list" where
  "broker_step s (Message ws d now) = on_message (\<lambda>x. x) s ws d now"
| "broker_step s (Close ws) = (handleDisconnection s ws, [])"
| "broker_step s (Error ws) = (handleDisconnection s ws, [])"

declare broker_step.simps [simp del]

fun broker_run :: "broker \<Rightarrow> event list \<Rightarrow> broker" where
  "broker_run s [] = s"
| "broker_run s (e # es) = broker_run (fst (broker_step s e)) es"

inductive reachable :: "broker \<Rightarrow> bool" where
  reachable_init: "reachable broker_init"
| reachable_step: "reachable s \<Longrightarrow> reachable (fst (broker_step s e))"

section \<open>The egress executor (src/master/app.js)\<close>

text \<open>The \<^verbatim>\<open>options\<close> object handed to \<^verbatim>\<open>http.request\<close>.\<close>

record options =
  opt_method :: jsval
  opt_headers :: props
  opt_timeout :: nat

text \<open>\<^verbatim>\<open>delete options.headers[name]\<close>\<close>

definition delete_header :: "string \<Rightarrow> props \<Rightarrow> props" where
  "delete_header name hs = AList.delete name hs"

text \<open>
  The headers of the outbound call: the spread of the envelope's \<^verbatim>\<open>headers\<close>,
  then the seven deletions in the source's order.
\<close>

definition strip_headers :: "props \<Rightarrow> props" where
  "strip_headers hs =
     delete_header ''connection''
       (delete_header ''upgrade''
         (delete_header ''sec-websocket-extensions''
           (delete_header ''sec-websocket-version''
             (delete_header ''sec-websocket-key''
               (delete_header ''content-length''
                 (delete_header ''host'' hs))))))"

definition request_options :: "jsval \<Rightarrow> options" where
  "request_options requestMessage =
     \<lparr>opt_method = field requestMessage ''method'',
      opt_headers = strip_headers (own_entries (field requestMessage ''headers'')),
      opt_timeout = 30000\<rparr>"

text \<open>
  What \<^verbatim>\<open>forwardRequest\<close> hands to \<^verbatim>\<open>req.write\<close>: nothing, the text
  \<^verbatim>\<open>JSON.stringify(body)\<close>, or the body itself.
\<close>

datatype chunk = JsonText jsval | Raw jsval

definition request_body :: "jsval \<Rightarrow> jsval \<Rightarrow> chunk option" where
  "request_body method body =
     (if truthy body \<and>
         (method = JStr ''POST'' \<or> method = JStr ''PUT'' \<or> method = JStr ''PATCH'')
      then (if typeof_object body then Some (JsonText body) else Some (Raw body))
      else None)"

text \<open>\<^verbatim>\<open>s.includes(p)\<close>\<close>

fun str_includes :: "string \<Rightarrow> string \<Rightarrow> bool" where
  "str_includes [] p = (p = [])"
| "str_includes (c # cs) p = (take (length p) (c # cs) = p \<or> str_includes cs p)"

text \<open>
  How the real call ends: the response has been read to its end (status code,
  headers, the text of the body), the request emits \<^verbatim>\<open>'error'\<close>, the request emits
  \<^verbatim>\<open>'timeout'\<close> after the 30 seconds of \<open>opt_timeout\<close>, or building the URL or the
  request throws.
\<close>

datatype target_event =
    OnEnd jsval jsval string
  | OnError string
  | OnTimeout
  | Thrown string

record response =
  resp_statusCode :: jsval
  resp_headers :: jsval
  resp_body :: jsval

text \<open>
  The promise of \<^verbatim>\<open>forwardRequest\<close>: \<open>Inl\<close> the message of the error it is rejected
  with, \<open>Inr\<close> the value it is resolved with. \<open>JSON_parse\<close> stands for \<^verbatim>\<open>JSON.parse\<close>.
  The \<^verbatim>\<open>content-type\<close> header of a response is a string when it is present.
\<close>

definition forwardRequest ::
  "(string \<Rightarrow> jsval option) \<Rightarrow> jsval \<Rightarrow> target_event \<Rightarrow> string + response" where
  "forwardRequest JSON_parse requestMessage ev =
     (case ev of
        Thrown e \<Rightarrow> Inl e
      | OnError e \<Rightarrow> Inl e
      | OnTimeout \<Rightarrow> Inl ''Request timeout''
      | OnEnd status hs responseBody \<Rightarrow>
          (let contentType = (case js_or (field hs ''content-type'') (JStr []) of
                                JStr ct \<Rightarrow> ct | v \<Rightarrow> []);
               parsedBody =
                 (if str_includes contentType ''application/json'' \<and> responseBody \<noteq> []
                  then (case JSON_parse responseBody of
                          Some v \<Rightarrow> v | None \<Rightarrow> JStr responseBody)
                  else JStr responseBody)
           in Inr \<lparr>resp_statusCode = status, resp_headers = hs, resp_body = parsedBody\<rparr>))"

text \<open>
  The envelopes the executor sends to the broker. An object built by a literal only
  to be serialised has the identity 0: the text carries no identity.
\<close>

definition sendResponse :: "jsval \<Rightarrow> response \<Rightarrow> props" where
  "sendResponse rid r =
     JSON_stringify
       [(''type'', JStr ''response''),
        (''requestId'', rid),
        (''statusCode'', resp_statusCode r),
        (''headers'', resp_headers r),
        (''body'', resp_body r)]"

definition sendError :: "jsval \<Rightarrow> string \<Rightarrow> props" where
  "sendError rid error =
     JSON_stringify
       [(''type'', JStr ''response''),
        (''requestId'', rid),
        (''statusCode'', JNum 500),
        (''headers'', JObj 0 [(''content-type'', JStr ''application/json'')]),
        (''body'', JObj 0 [(''error'', JStr error)])]"

text \<open>
  \<^verbatim>\<open>MasterProxy.handleRequest\<close>: the list of the envelopes sent to the broker for
  one Request envelope.
\<close>

definition master_handleRequest ::
  "(string \<Rightarrow> jsval option) \<Rightarrow> jsval \<Rightarrow> target_event \<Rightarrow> props list" where
  "master_handleRequest JSON_parse message ev =
     (case forwardRequest JSON_parse message ev of
        Inr r \<Rightarrow> [sendResponse (field message ''requestId'') r]
      | Inl e \<Rightarrow> [sendError (field message ''requestId'') e])"

text \<open>
  \<^verbatim>\<open>MasterProxy.handleMessage\<close> inside the \<^verbatim>\<open>try\<close> of the \<^verbatim>\<open>'message'\<close> listener:
  a payload that does not parse, a \<^verbatim>\<open>null\<close> message and a message of another type
  are logged only.
\<close>

definition master_on_message ::
  "(string \<Rightarrow> jsval option) \<Rightarrow> jsval option \<Rightarrow> target_event \<Rightarrow> props list" where
  "master_on_message JSON_parse d ev =
     (case d of
        None \<Rightarrow> []
      | Some message \<Rightarrow>
          (if message = JNull \<or> message = JUndefined then []
           else if field message ''type'' = JStr ''registered'' then []
           else if field message ''type'' = JStr ''request''
             then master_handleRequest JSON_parse message ev
           else []))"

section \<open>The ingress adapter (src/client/app.js)\<close>

text \<open>
  An HTTP response handle \<^verbatim>\<open>res\<close> is the identity of the object; the calls made
  on it are recorded. A timer is the handle \<^verbatim>\<open>setTimeout\<close> returns.
\<close>

type_synonym res = nat

datatype res_call =
    Status jsval
  | SetHeader string jsval
  | SendBody jsval
  | End
  | Json props

text \<open>
  What the adapter does: a call on a response handle, a message sent to the broker,
  and an exception that no handler of the program catches.
\<close>

datatype client_action = Res res res_call | WsSend props | Uncaught

record http_req =
  req_method :: jsval
  req_path :: jsval
  req_headers :: jsval
  req_body :: jsval
  req_query :: jsval

text \<open>
  A call on a response handle can throw: Express and Node reject, among others, a
  header name that is not an HTTP token and a status code that is not one. Which
  calls throw is given by \<open>throws\<close>. A sequence of calls is made in order, up to the
  first call that throws: \<open>res_calls\<close> returns the calls made and whether the last of
  them threw.
\<close>

fun res_calls :: "(res_call \<Rightarrow> bool) \<Rightarrow> res \<Rightarrow> res_call list \<Rightarrow> client_action list \<times> bool" where
  "res_calls throws r [] = ([], False)"
| "res_calls throws r (c # cs) =
     (if throws c then ([Res r c], True)
      else (case res_calls throws r cs of (acts, thrown) \<Rightarrow> (Res r c # acts, thrown)))"

text \<open>
  The fields of \<^verbatim>\<open>ClientProxy\<close>. \<open>resTimeout\<close> is the \<^verbatim>\<open>timeout\<close> property that
  \<^verbatim>\<open>handleRequest\<close> stores on a response handle; \<open>timers\<close> holds the armed timers
  with the \<^verbatim>\<open>requestId\<close> and \<^verbatim>\<open>res\<close> their callback has captured.
\<close>

record client =
  isConnected :: bool
  localPending :: "(jsval, res) jsmap"
  resTimeout :: "res \<Rightarrow> nat option"
  timers :: "(nat, jsval \<times> res) jsmap"
  timerSeq :: nat

definition client_init :: client where
  "client_init =
     \<lparr>isConnected = False, localPending = [], resTimeout = (\<lambda>r. None), timers = [],
      timerSeq = 0\<rparr>"

definition clearTimeout :: "client \<Rightarrow> nat \<Rightarrow> client" where
  "clearTimeout s t = s\<lparr>timers := Map_delete t (timers s)\<rparr>"

text \<open>
  \<^verbatim>\<open>ClientProxy.handleRequest\<close>, as the catch-all route calls it. The Express
  pipeline around the route (the body parsers, the CORS middleware, the error
  middleware) is left out, and the two calls of the 503 answer are recorded as made.
\<close>

definition client_handleRequest ::
  "client \<Rightarrow> http_req \<Rightarrow> res \<Rightarrow> string \<Rightarrow> client \<times> client_action list" where
  "client_handleRequest s req r uuid =
     (if \<not> isConnected s then
        (s, [Res r (Status (JNum 503)),
             Res r (Json [(''error'',
               JStr ''Service unavailable - not connected to relay server'')])])
      else
        (let rid = JStr uuid;
             t = timerSeq s;
             s1 = s\<lparr>localPending := Map_set rid r (localPending s)\<rparr>;
             s2 = s1\<lparr>timers := Map_set t (rid, r) (timers s1), timerSeq := Suc t\<rparr>;
             s3 = s2\<lparr>resTimeout := (resTimeout s2)(r := Some t)\<rparr>
         in (s3, [WsSend (JSON_stringify
                    [(''type'', JStr ''request''),
                     (''requestId'', rid),
                     (''method'', req_method req),
                     (''path'', req_path req),
                     (''headers'', req_headers req),
                     (''body'', req_body req),
                     (''query'', req_query req)])])))"

text \<open>
  The callback of the 30 second timer set by \<^verbatim>\<open>handleRequest\<close>. It deletes the
  entry first and answers then; an exception of the answer is caught by nothing.
\<close>

definition timeout_callback ::
  "(res_call \<Rightarrow> bool) \<Rightarrow> client \<Rightarrow> jsval \<Rightarrow> res \<Rightarrow> client \<times> client_action list" where
  "timeout_callback throws s rid r =
     (if Map_has (localPending s) rid then
        (case res_calls throws r
                [Status (JNum 504), Json [(''error'', JStr ''Request timeout'')]] of
           (acts, thrown) \<Rightarrow>
             (s\<lparr>localPending := Map_delete rid (localPending s)\<rparr>,
              acts @ (if thrown then [Uncaught] else [])))
      else (s, []))"

text \<open>An armed timer fires once; a cleared one never does.\<close>

definition timer_fires ::
  "(res_call \<Rightarrow> bool) \<Rightarrow> client \<Rightarrow> nat \<Rightarrow> client \<times> client_action list" where
  "timer_fires throws s t =
     (case Map_get (timers s) t of
        None \<Rightarrow> (s, [])
      | Some (rid, r) \<Rightarrow>
          timeout_callback throws (s\<lparr>timers := Map_delete t (timers s)\<rparr>) rid r)"

text \<open>
  \<^verbatim>\<open>ClientProxy.handleResponse\<close> and \<^verbatim>\<open>ClientProxy.handleError\<close>, up to their end
  or to the call that throws. The timer is cleared first, the calls on the response
  handle follow, and the entry is deleted by the last statement: when a call throws,
  the entry stays in the table.
\<close>

definition client_handleResponse ::
  "(res_call \<Rightarrow> bool) \<Rightarrow> client \<Rightarrow> jsval \<Rightarrow> client \<times> client_action list" where
  "client_handleResponse throws s message =
     (case Map_get (localPending s) (field message ''requestId'') of
        None \<Rightarrow> (s, [])
      | Some r \<Rightarrow>
          (let s1 = (case resTimeout s r of Some t \<Rightarrow> clearTimeout s t | None \<Rightarrow> s)
           in (case res_calls throws r
                      ([Status (field message ''statusCode'')]
                       @ (if truthy (field message ''headers'')
                          then map (\<lambda>kv. SetHeader (fst kv) (snd kv))
                                 (own_entries (field message ''headers''))
                          else [])
                       @ [if truthy (field message ''body'')
                          then SendBody (field message ''body'')
                          else End]) of
                 (acts, thrown) \<Rightarrow>
                   (if thrown then s1
                    else s1\<lparr>localPending :=
                              Map_delete (field message ''requestId'') (localPending s1)\<rparr>,
                    acts))))"

definition client_handleError ::
  "(res_call \<Rightarrow> bool) \<Rightarrow> client \<Rightarrow> jsval \<Rightarrow> client \<times> client_action list" where
  "client_handleError throws s message =
     (case Map_get (localPending s) (field message ''requestId'') of
        None \<Rightarrow> (s, [])
      | Some r \<Rightarrow>
          (let s1 = (case resTimeout s r of Some t \<Rightarrow> clearTimeout s t | None \<Rightarrow> s)
           in (case res_calls throws r
                      [Status (JNum 500), Json [(''error'', field message ''error'')]] of
                 (acts, thrown) \<Rightarrow>
                   (if thrown then s1
                    else s1\<lparr>localPending :=
                              Map_delete (field message ''requestId'') (localPending s1)\<rparr>,
                    acts))))"

text \<open>
  The \<^verbatim>\<open>'message'\<close> listener with \<^verbatim>\<open>ClientProxy.handleMessage\<close> inside its
  \<^verbatim>\<open>try\<close>: a payload that does not parse, a \<^verbatim>\<open>null\<close> message and an exception of
  a handler are logged only, so the state a handler has reached when it throws is the
  state after the message.
\<close>

definition client_on_message ::
  "(res_call \<Rightarrow> bool) \<Rightarrow> client \<Rightarrow> jsval option \<Rightarrow> client \<times> client_action list" where
  "client_on_message throws s d =
     (case d of
        None \<Rightarrow> (s, [])
      | Some message \<Rightarrow>
          (if message = JNull \<or> message = JUndefined then (s, [])
           else if field message ''type'' = JStr ''registered'' then (s, [])
           else if field message ''type'' = JStr ''response''
             then client_handleResponse throws s message
           else if field message ''type'' = JStr ''error''
             then client_handleError throws s message
           else (s, [])))"

text \<open>
  The three ways the wait for one correlation ID can end, and a run of them in the
  order they occur.
\<close>

datatype outcome = Delivered jsval | Failed jsval | TimedOut jsval res

fun outcome_id :: "outcome \<Rightarrow> jsval" where
  "outcome_id (Delivered message) = field message ''requestId''"
| "outcome_id (Failed message) = field message ''requestId''"
| "outcome_id (TimedOut rid r) = rid"

fun outcome_step ::
  "(res_call \<Rightarrow> bool) \<Rightarrow> client \<Rightarrow> outcome \<Rightarrow> client \<times> client_action list" where
  "outcome_step throws s (Delivered message) = client_handleResponse throws s message"
| "outcome_step throws s (Failed message) = client_handleError throws s message"
| "outcome_step throws s (TimedOut rid r) = timeout_callback throws s rid r"

fun outcome_run ::
  "(res_call \<Rightarrow> bool) \<Rightarrow> client \<Rightarrow> outcome list \<Rightarrow> client \<times> client_action list" where
  "outcome_run throws s [] = (s, [])"
| "outcome_run throws s (x # xs) =
     (case outcome_step throws s x of
        (s1, acts) \<Rightarrow>
          (case outcome_run throws s1 xs of (s2, acts2) \<Rightarrow> (s2, acts @ acts2)))"

text \<open>
  An outcome is for the entry \<open>rid \<mapsto> r\<close> of the table when it is a Response or an
  Error envelope with that \<^verbatim>\<open>requestId\<close>, or the timer callback of the request, which
  has captured \<open>rid\<close> and \<open>r\<close>.
\<close>

definition outcome_for :: "jsval \<Rightarrow> res \<Rightarrow> outcome \<Rightarrow> bool" where
  "outcome_for rid r x =
     (case x of
        Delivered message \<Rightarrow> field message ''requestId'' = rid
      | Failed message \<Rightarrow> field message ''requestId'' = rid
      | TimedOut rid' r' \<Rightarrow> rid' = rid \<and> r' = r)"

text \<open>
  The events of an adapter run: the link to the broker opens (with the value of
  \<^verbatim>\<open>uuidv4()\<close> for the client ID), closes or fails; the catch-all route hands an HTTP
  request to \<^verbatim>\<open>handleRequest\<close> (with its response handle and the value of
  \<^verbatim>\<open>uuidv4()\<close> for the correlation ID); a payload arrives from the broker; an armed
  timer fires. The reconnect after a close opens a new socket, whose \<^verbatim>\<open>'open'\<close> is a
  later event.
\<close>

datatype client_event =
    WsOpen string
  | WsClose
  | WsError
  | HttpRequest http_req res string
  | WsMessage "jsval option"
  | TimerFires nat

fun client_step ::
  "(res_call \<Rightarrow> bool) \<Rightarrow> client \<Rightarrow> client_event \<Rightarrow> client \<times> client_action list" where
  "client_step throws s (WsOpen uuid) =
     (s\<lparr>isConnected := True\<rparr>,
      [WsSend (JSON_stringify
         [(''type'', JStr ''register''), (''role'', JStr ''client''),
          (''clientId'', JStr (''client_'' @ uuid))])])"
| "client_step throws s WsClose = (s\<lparr>isConnected := False\<rparr>, [])"
| "client_step throws s WsError = (s\<lparr>isConnected := False\<rparr>, [])"
| "client_step throws s (HttpRequest req r uuid) = client_handleRequest s req r uuid"
| "client_step throws s (WsMessage d) = client_on_message throws s d"
| "client_step throws s (TimerFires t) = timer_fires throws s t"

declare client_step.simps [simp del]

inductive client_reachable :: "(res_call \<Rightarrow> bool) \<Rightarrow> client \<Rightarrow> bool" where
  client_reachable_init: "client_reachable throws client_init"
| client_reachable_step:
    "client_reachable throws s \<Longrightarrow> client_reachable throws (fst (client_step throws s e))"

section \<open>Concrete runs\<close>

text \<open>
  A broker run: connection 0 registers as the egress executor, connection 2 registers
  as ingress adapter \<open>c1\<close> and sends one request, which is then pending.
\<close>

definition ex_register_master :: jsval where
  "ex_register_master = JObj 1 [(''type'', JStr ''register''), (''role'', JStr ''master'')]"

definition ex_register_client :: jsval where
  "ex_register_client =
     JObj 2 [(''type'', JStr ''register''), (''role'', JStr ''client''), (''clientId'', JStr ''c1'')]"

definition ex_request :: jsval where
  "ex_request =
     JObj 3 [(''type'', JStr ''request''), (''requestId'', JStr ''r1''), (''method'', JStr ''GET''),
             (''path'', JStr ''/status''), (''headers'', JObj 4 [(''accept'', JStr ''*/*'')])]"

definition ex_response :: jsval where
  "ex_response =
     JObj 5 [(''type'', JStr ''response''), (''requestId'', JStr ''r1''), (''statusCode'', JNum 200),
             (''headers'', JObj 6 [(''content-type'', JStr ''application/json'')]),
             (''body'', JObj 7 [(''ok'', JBool True)])]"

definition ex_broker :: broker where
  "ex_broker =
     broker_run broker_init
       [Message 0 (Some ex_register_master) 1000,
        Message 2 (Some ex_register_client) 1001,
        Message 2 (Some ex_request) 1002]"

definition ex_response_unknown :: jsval where
  "ex_response_unknown =
     JObj 8 [(''type'', JStr ''response''), (''requestId'', JStr ''r9''), (''statusCode'', JNum 200)]"


text \<open>
  For the egress executor: a \<^verbatim>\<open>JSON.parse\<close> that always throws, the headers an
  ingress adapter passes on, and a POST request envelope.
\<close>

definition ex_parse :: "string \<Rightarrow> jsval option" where
  "ex_parse text = None"

definition ex_headers :: props where
  "ex_headers =
     [(''host'', JStr ''localhost:9983''), (''connection'', JStr ''keep-alive''),
      (''accept'', JStr ''*/*''), (''content-length'', JStr ''2'')]"

definition ex_post :: jsval where
  "ex_post =
     JObj 9 [(''type'', JStr ''request''), (''requestId'', JStr ''r2''), (''method'', JStr ''POST''),
             (''path'', JStr ''/scan''), (''headers'', JObj 10 ex_headers),
             (''body'', JObj 11 [(''code'', JNum 7)])]"


text \<open>
  More broker runs: only the egress executor has registered; the egress connection
  has itself sent a request; a second request that carries the pending
  \<^verbatim>\<open>requestId\<close>; one connection that has registered as ingress adapter twice.
\<close>

definition ex_egress_only :: broker where
  "ex_egress_only = broker_run broker_init [Message 0 (Some ex_register_master) 1000]"

definition ex_egress_self :: broker where
  "ex_egress_self =
     broker_run broker_init
       [Message 0 (Some ex_register_master) 1000, Message 0 (Some ex_request) 1001]"

definition ex_request_dup :: jsval where
  "ex_request_dup =
     JObj 12 [(''type'', JStr ''request''), (''requestId'', JStr ''r1''), (''method'', JStr ''POST''),
              (''path'', JStr ''/other'')]"

definition ex_register_again :: jsval where
  "ex_register_again =
     JObj 13 [(''type'', JStr ''register''), (''role'', JStr ''client''), (''clientId'', JStr ''c2'')]"

definition ex_twice :: broker where
  "ex_twice =
     broker_run broker_init
       [Message 2 (Some ex_register_client) 1000, Message 2 (Some ex_register_again) 1001]"


text \<open>
  An adapter run: the link to the broker opens and one HTTP request arrives, with
  the response handle 7 and the fresh ID \<open>u1\<close>; then the envelopes that may answer
  it. On the response handle, setting a header whose name is \<^verbatim>\<open>bad header\<close> throws
  (the name is not an HTTP token). The first Response envelope carries such a header.
\<close>

definition ex_throws :: "res_call \<Rightarrow> bool" where
  "ex_throws c = (case c of SetHeader name v \<Rightarrow> name = ''bad header'' | _ \<Rightarrow> False)"

definition ex_http_req :: http_req where
  "ex_http_req =
     \<lparr>req_method = JStr ''GET'', req_path = JStr ''/status'',
      req_headers = JObj 20 [(''accept'', JStr ''*/*'')],
      req_body = JObj 21 [], req_query = JObj 22 []\<rparr>"

definition ex_client :: client where
  "ex_client =
     fst (client_step ex_throws (fst (client_step ex_throws client_init (WsOpen ''u0'')))
       (HttpRequest ex_http_req 7 ''u1''))"

definition ex_client_response :: jsval where
  "ex_client_response =
     JObj 23 [(''type'', JStr ''response''), (''requestId'', JStr ''u1''),
              (''statusCode'', JNum 200),
              (''headers'', JObj 24 [(''content-type'', JStr ''application/json'')]),
              (''body'', JObj 25 [(''ok'', JBool True)])]"

definition ex_client_error :: jsval where
  "ex_client_error =
     JObj 26 [(''type'', JStr ''error''), (''requestId'', JStr ''u1''),
              (''error'', JStr ''Master computer not available'')]"

definition ex_client_response_bad :: jsval where
  "ex_client_response_bad =
     JObj 27 [(''type'', JStr ''response''), (''requestId'', JStr ''u1''),
              (''statusCode'', JNum 200),
              (''headers'', JObj 28 [(''bad header'', JStr ''x'')]),
              (''body'', JObj 29 [(''ok'', JBool True)])]"

definition ex_client_stuck :: client where
  "ex_client_stuck =
     fst (client_step ex_throws ex_client (WsMessage (Some ex_client_response_bad)))"

text \<open>A request envelope that carries no \<^verbatim>\<open>requestId\<close>.\<close>

definition ex_request_noid :: jsval where
  "ex_request_noid =
     JObj 14 [(''type'', JStr ''request''), (''method'', JStr ''GET''), (''path'', JStr ''/x'')]"

section \<open>Facts about the Map operations and the concrete runs\<close>

lemma cleanup_keys:
  "cleanup ws es m =
     filter (\<lambda>e. fst e \<notin> fst ` {x \<in> set es. clientWs (snd x) = ws}) m"
proof (induction es arbitrary: m)
  case Nil
  show ?case by simp
next
  case (Cons e es)
  show ?case
  proof (cases "clientWs (snd e) = ws")
    case True
    have "cleanup ws (e # es) m = cleanup ws es (Map_delete (fst e) m)"
      using True by simp
    also have "\<dots> = filter (\<lambda>x. fst x \<notin> fst ` {x \<in> set es. clientWs (snd x) = ws})
                         (filter (\<lambda>x. fst x \<noteq> fst e) m)"
      by (simp add: Cons.IH AList.delete_eq case_prod_unfold eq_commute)
    also have "\<dots> = filter (\<lambda>x. fst x \<notin> fst ` {x \<in> set (e # es). clientWs (snd x) = ws}) m"
      using True by (auto intro!: filter_cong)
    finally show ?thesis .
  next
    case False
    have "{x \<in> set (e # es). clientWs (snd x) = ws} = {x \<in> set es. clientWs (snd x) = ws}"
      using False by auto
    then show ?thesis using False by (simp add: Cons.IH)
  qed
qed

lemma cleanup_self:
  assumes "distinct (map fst m)"
  shows "cleanup ws m m = filter (\<lambda>e. clientWs (snd e) \<noteq> ws) m"
proof -
  have "\<And>e. e \<in> set m \<Longrightarrow>
          (fst e \<notin> fst ` {x \<in> set m. clientWs (snd x) = ws}) = (clientWs (snd e) \<noteq> ws)"
  proof -
    fix e assume e: "e \<in> set m"
    show "(fst e \<notin> fst ` {x \<in> set m. clientWs (snd x) = ws}) = (clientWs (snd e) \<noteq> ws)"
    proof
      assume "fst e \<notin> fst ` {x \<in> set m. clientWs (snd x) = ws}"
      then show "clientWs (snd e) \<noteq> ws" using e by auto
    next
      assume ne: "clientWs (snd e) \<noteq> ws"
      show "fst e \<notin> fst ` {x \<in> set m. clientWs (snd x) = ws}"
      proof
        assume "fst e \<in> fst ` {x \<in> set m. clientWs (snd x) = ws}"
        then obtain x where x: "x \<in> set m" "clientWs (snd x) = ws" "fst x = fst e" by auto
        from assms x(1) e x(3) have "x = e"
          by (metis eq_key_imp_eq_value prod.collapse)
        with x(2) ne show False by simp
      qed
    qed
  qed
  then show ?thesis
    unfolding cleanup_keys by (auto intro!: filter_cong)
qed

lemma distinct_cleanup:
  "distinct (map fst m) \<Longrightarrow> distinct (map fst (cleanup ws es m))"
  unfolding cleanup_keys by (simp add: distinct_map_filter)

lemma pending_handleRegistration:
  "pendingRequests (fst (handleRegistration s ws message now)) = pendingRequests s"
  by (simp add: handleRegistration_def Let_def)

lemma distinct_handleRequest:
  "distinct (map fst (pendingRequests s)) \<Longrightarrow>
   distinct (map fst (pendingRequests (fst (handleRequest s ws message now))))"
  by (auto simp: handleRequest_def Let_def AList.distinct_update split: option.splits)

lemma distinct_handleResponse:
  "distinct (map fst (pendingRequests s)) \<Longrightarrow>
   distinct (map fst (pendingRequests (fst (handleResponse s ws message))))"
  by (auto simp: handleResponse_def AList.distinct_delete split: option.splits)

lemma distinct_handleDisconnection:
  "distinct (map fst (pendingRequests s)) \<Longrightarrow>
   distinct (map fst (pendingRequests (handleDisconnection s ws)))"
  by (simp add: handleDisconnection_def Let_def distinct_cleanup)

lemma distinct_on_message:
  "distinct (map fst (pendingRequests s)) \<Longrightarrow>
   distinct (map fst (pendingRequests (fst (on_message P s ws d now))))"
  by (auto simp: on_message_def handleMessage_def pending_handleRegistration
      distinct_handleRequest distinct_handleResponse split: option.splits if_splits)

lemma distinct_broker_step:
  "distinct (map fst (pendingRequests s)) \<Longrightarrow>
   distinct (map fst (pendingRequests (fst (broker_step s e))))"
  by (cases e) (simp_all add: broker_step.simps distinct_on_message distinct_handleDisconnection)

lemma reachable_distinct:
  "reachable s \<Longrightarrow> distinct (map fst (pendingRequests s))"
  by (induction rule: reachable.induct) (simp_all add: broker_init_def distinct_broker_step)

lemma ex_broker_master: "master ex_broker = Some 0"
  by (simp add: ex_broker_def broker_init_def broker_step.simps on_message_def handleMessage_def
      handleRegistration_def handleRequest_def js_or_def Let_def
      ex_register_master_def ex_register_client_def ex_request_def)

lemma ex_broker_pending:
  "pendingRequests ex_broker = [(JStr ''r1'', \<lparr>clientWs = 2, originalRequest = ex_request\<rparr>)]"
  by (simp add: ex_broker_def broker_init_def broker_step.simps on_message_def handleMessage_def
      handleRegistration_def handleRequest_def js_or_def Let_def
      ex_register_master_def ex_register_client_def ex_request_def)

lemma ex_broker_clients: "clients ex_broker = [(JStr ''c1'', 2)]"
  by (simp add: ex_broker_def broker_init_def broker_step.simps on_message_def handleMessage_def
      handleRegistration_def handleRequest_def js_or_def Let_def
      ex_register_master_def ex_register_client_def ex_request_def)

lemma reachable_run: "reachable s \<Longrightarrow> reachable (broker_run s es)"
  by (induction es arbitrary: s) (auto intro: reachable_step)

lemma ex_broker_reachable: "reachable ex_broker"
  unfolding ex_broker_def by (rule reachable_run) (rule reachable_init)

lemma dispatch_response:
  "field message ''type'' = JStr ''response'' \<Longrightarrow>
   broker_step s (Message ws (Some message) now) = handleResponse s ws message"
  by (auto simp: broker_step.simps on_message_def handleMessage_def)

lemma dispatch_request:
  "field message ''type'' = JStr ''request'' \<Longrightarrow>
   broker_step s (Message ws (Some message) now) = handleRequest s ws message now"
  by (auto simp: broker_step.simps on_message_def handleMessage_def)

lemma handleResponse_stale:
  "Some ws \<noteq> master s \<Longrightarrow> handleResponse s ws message = (s, [])"
  by (simp add: handleResponse_def)

lemma handleResponse_unknown:
  "Map_get (pendingRequests s) (field message ''requestId'') = None \<Longrightarrow>
   handleResponse s ws message = (s, [])"
  by (simp add: handleResponse_def)

lemma handleResponse_state:
  "Some ws = master s \<Longrightarrow> Map_get (pendingRequests s) (field message ''requestId'') = Some p \<Longrightarrow>
   fst (handleResponse s ws message) =
     s\<lparr>pendingRequests := Map_delete (field message ''requestId'') (pendingRequests s)\<rparr>"
  by (simp add: handleResponse_def)

lemma handleResponse_sends:
  "Some ws = master s \<Longrightarrow> Map_get (pendingRequests s) (field message ''requestId'') = Some p \<Longrightarrow>
   \<exists>payload. snd (handleResponse s ws message) = [Send (clientWs p) payload] \<and>
     field (JObj n payload) ''type'' = JStr ''response'' \<and>
     field (JObj n payload) ''requestId'' = field message ''requestId'' \<and>
     field (JObj n payload) ''statusCode'' = field message ''statusCode'' \<and>
     field (JObj n payload) ''headers'' = field message ''headers'' \<and>
     field (JObj n payload) ''body'' = field message ''body''"
  by (simp add: handleResponse_def JSON_stringify_def)

lemma handleResponse_second:
  "Some ws = master s \<Longrightarrow> Map_get (pendingRequests s) (field message ''requestId'') = Some p \<Longrightarrow>
   field message2 ''requestId'' = field message ''requestId'' \<Longrightarrow>
   handleResponse (fst (handleResponse s ws message)) ws2 message2 = (fst (handleResponse s ws message), [])"
  by (simp add: handleResponse_state handleResponse_unknown AList.delete_conv')

lemma sendError_fields:
  "field (JObj n (sendError rid e)) ''type'' = JStr ''response'' \<and>
   field (JObj n (sendError rid e)) ''requestId'' = rid \<and>
   field (JObj n (sendError rid e)) ''statusCode'' = JNum 500 \<and>
   field (JObj n (sendError rid e)) ''headers'' =
     JObj 0 [(''content-type'', JStr ''application/json'')] \<and>
   field (JObj n (sendError rid e)) ''body'' = JObj 0 [(''error'', JStr e)]"
  by (simp add: sendError_def JSON_stringify_def)

lemma map_of_delete_header:
  "map_of (delete_header name hs) k = (if k = name then None else map_of hs k)"
  by (simp add: delete_header_def AList.delete_conv')

lemma map_of_strip_headers:
  "map_of (strip_headers hs) k =
     (if k \<in> {''host'', ''content-length'', ''sec-websocket-key'', ''sec-websocket-version'',
               ''sec-websocket-extensions'', ''upgrade'', ''connection''}
      then None else map_of hs k)"
  unfolding strip_headers_def map_of_delete_header by simp

lemma delete_header_absent:
  "map_of hs name = None \<Longrightarrow> delete_header name hs = hs"
  by (simp add: delete_header_def map_of_eq_None_iff)

lemma strip_headers_idem: "strip_headers (strip_headers hs) = strip_headers hs"
proof -
  have a: "\<And>name. name \<in> {''host'', ''content-length'', ''sec-websocket-key'',
      ''sec-websocket-version'', ''sec-websocket-extensions'', ''upgrade'', ''connection''} \<Longrightarrow>
      delete_header name (strip_headers hs) = strip_headers hs"
    using map_of_strip_headers [of hs] by (intro delete_header_absent) simp
  show ?thesis
    by (subst (1) strip_headers_def) (simp add: a)
qed

lemmas ex_eval =
  broker_init_def broker_step.simps on_message_def handleMessage_def
  handleRegistration_def handleRequest_def handleResponse_def handleDisconnection_def
  js_or_def Let_def JSON_stringify_def AList.delete_eq
  ex_register_master_def ex_register_client_def ex_register_again_def

lemma handleRequest_no_master:
  "master s = None \<Longrightarrow>
   handleRequest s ws message now =
     (s, [Send ws (JSON_stringify
            [(''type'', JStr ''error''),
             (''requestId'', field message ''requestId''),
             (''error'', JStr ''Master computer not available'')])])"
  by (simp add: handleRequest_def)

lemma no_master_fields:
  "field (JObj n (JSON_stringify
            [(''type'', JStr ''error''),
             (''requestId'', rid),
             (''error'', JStr ''Master computer not available'')])) ''type'' = JStr ''error'' \<and>
   field (JObj n (JSON_stringify
            [(''type'', JStr ''error''),
             (''requestId'', rid),
             (''error'', JStr ''Master computer not available'')])) ''requestId'' = rid \<and>
   field (JObj n (JSON_stringify
            [(''type'', JStr ''error''),
             (''requestId'', rid),
             (''error'', JStr ''Master computer not available'')])) ''error'' =
     JStr ''Master computer not available''"
  by (simp add: JSON_stringify_def)

lemma disconnect_master:
  "master s = Some ws \<Longrightarrow>
   master (handleDisconnection s ws) = None \<and>
   clients (handleDisconnection s ws) = clients s \<and>
   requestId (handleDisconnection s ws) = requestId s \<and>
   wsClientId (handleDisconnection s ws) = wsClientId s"
  by (simp add: handleDisconnection_def Let_def)

lemma disconnect_pending:
  "distinct (map fst (pendingRequests s)) \<Longrightarrow>
   pendingRequests (handleDisconnection s ws) =
     filter (\<lambda>e. clientWs (snd e) \<noteq> ws) (pendingRequests s)"
  by (simp add: handleDisconnection_def Let_def cleanup_self)

lemma step_close: "broker_step s (Close ws) = (handleDisconnection s ws, [])"
  by (simp add: broker_step.simps)

lemma step_error: "broker_step s (Error ws) = (handleDisconnection s ws, [])"
  by (simp add: broker_step.simps)

lemma ex_egress_self_pending:
  "pendingRequests ex_egress_self =
     [(JStr ''r1'', \<lparr>clientWs = 0, originalRequest = ex_request\<rparr>)]"
  by (simp add: ex_egress_self_def ex_eval ex_request_def)

lemma ex_egress_self_master: "master ex_egress_self = Some 0"
  by (simp add: ex_egress_self_def ex_eval ex_request_def)

lemma ex_egress_self_reachable: "reachable ex_egress_self"
  unfolding ex_egress_self_def by (rule reachable_run) (rule reachable_init)

lemma no_terminate_handleRegistration:
  "Terminate c \<notin> set (snd (handleRegistration s ws message now))"
  by (simp add: handleRegistration_def Let_def)

lemma no_terminate_handleRequest:
  "Terminate c \<notin> set (snd (handleRequest s ws message now))"
  by (simp add: handleRequest_def Let_def split: option.splits)

lemma no_terminate_handleResponse:
  "Terminate c \<notin> set (snd (handleResponse s ws message))"
  by (simp add: handleResponse_def split: option.splits)

lemma no_terminate_step: "Terminate c \<notin> set (snd (broker_step s ev))"
proof (cases ev)
  case (Message ws d now)
  then show ?thesis
    by (auto simp: broker_step.simps on_message_def handleMessage_def
        no_terminate_handleRegistration no_terminate_handleRequest
        no_terminate_handleResponse split: option.splits if_splits)
qed (simp_all add: broker_step.simps)

lemma handleRequest_registry:
  "handleRequest (s\<lparr>clients := cs, wsClientId := w\<rparr>) ws message now =
     ((fst (handleRequest s ws message now))\<lparr>clients := cs, wsClientId := w\<rparr>,
      snd (handleRequest s ws message now))"
  by (simp add: handleRequest_def Let_def split: option.splits)

lemma handleResponse_registry:
  "handleResponse (s\<lparr>clients := cs, wsClientId := w\<rparr>) ws message =
     ((fst (handleResponse s ws message))\<lparr>clients := cs, wsClientId := w\<rparr>,
      snd (handleResponse s ws message))"
  by (simp add: handleResponse_def split: option.splits)

lemma JSON_stringify_Cons:
  "JSON_stringify ((k, v) # fs) =
     (if v \<noteq> JUndefined then (k, v) # JSON_stringify fs else JSON_stringify fs)"
  by (simp add: JSON_stringify_def)

lemma map_of_stringify:
  "distinct (map fst fs) \<Longrightarrow>
   map_of (JSON_stringify fs) k =
     (if map_of fs k = Some JUndefined then None else map_of fs k)"
proof (induction fs)
  case Nil
  show ?case by (simp add: JSON_stringify_def)
next
  case (Cons a fs)
  then have IH: "map_of (JSON_stringify fs) k =
     (if map_of fs k = Some JUndefined then None else map_of fs k)"
    and fresh: "fst a \<notin> fst ` set fs" by simp_all
  have none: "map_of fs (fst a) = None"
    using fresh by (simp add: map_of_eq_None_iff)
  show ?case
  proof (cases "k = fst a")
    case True
    then show ?thesis
      using none IH by (cases a) (simp add: JSON_stringify_Cons)
  next
    case False
    then show ?thesis
      using IH by (cases a) (simp add: JSON_stringify_Cons)
  qed
qed

lemma field_stringify:
  "distinct (map fst fs) \<Longrightarrow> field (JObj n (JSON_stringify fs)) k = field (JObj n fs) k"
  by (simp add: map_of_stringify split: option.splits)

lemma handleRequest_sends:
  "master s = Some m \<Longrightarrow>
   snd (handleRequest s ws message now) =
     [Send m (JSON_stringify
        [(''type'', JStr ''request''),
         (''requestId'', if truthy (field message ''requestId'') then field message ''requestId''
            else JStr (''req_'' @ show_nat (requestId s + 1) @ ''_'' @ show_nat now)),
         (''method'', field message ''method''),
         (''path'', field message ''path''),
         (''headers'', field message ''headers''),
         (''body'', field message ''body''),
         (''query'', field message ''query'')])]"
  by (simp add: handleRequest_def Let_def)

lemma handleRequest_pending:
  "master s = Some m \<Longrightarrow>
   pendingRequests (fst (handleRequest s ws message now)) =
     Map_set (if truthy (field message ''requestId'') then field message ''requestId''
            else JStr (''req_'' @ show_nat (requestId s + 1) @ ''_'' @ show_nat now))
       \<lparr>clientWs = ws, originalRequest = message\<rparr> (pendingRequests s)"
  by (simp add: handleRequest_def Let_def)

lemma handleRequest_forward:
  assumes "master s = Some m"
  shows "\<exists>payload.
     snd (handleRequest s ws message now) = [Send m payload] \<and>
     field (JObj 0 payload) ''type'' = JStr ''request'' \<and>
     field (JObj 0 payload) ''method'' = field message ''method'' \<and>
     field (JObj 0 payload) ''path'' = field message ''path'' \<and>
     field (JObj 0 payload) ''headers'' = field message ''headers'' \<and>
     field (JObj 0 payload) ''body'' = field message ''body'' \<and>
     field (JObj 0 payload) ''query'' = field message ''query'' \<and>
     Map_get (pendingRequests (fst (handleRequest s ws message now)))
       (field (JObj 0 payload) ''requestId'') =
       Some \<lparr>clientWs = ws, originalRequest = message\<rparr>"
proof -
  let ?rid = "if truthy (field message ''requestId'') then field message ''requestId''
            else JStr (''req_'' @ show_nat (requestId s + 1) @ ''_'' @ show_nat now)"
  let ?fs = "[(''type'', JStr ''request''),
         (''requestId'', ?rid),
         (''method'', field message ''method''),
         (''path'', field message ''path''),
         (''headers'', field message ''headers''),
         (''body'', field message ''body''),
         (''query'', field message ''query'')]"
  have d: "distinct (map fst ?fs)" by simp
  have f: "\<And>k. field (JObj 0 (JSON_stringify ?fs)) k = field (JObj 0 ?fs) k"
    using d by (rule field_stringify)
  have 1: "snd (handleRequest s ws message now) = [Send m (JSON_stringify ?fs)]"
    using assms by (rule handleRequest_sends)
  have 2: "field (JObj 0 (JSON_stringify ?fs)) ''type'' = JStr ''request''"
    unfolding f by simp
  have 3: "field (JObj 0 (JSON_stringify ?fs)) ''method'' = field message ''method''"
    unfolding f by simp
  have 4: "field (JObj 0 (JSON_stringify ?fs)) ''path'' = field message ''path''"
    unfolding f by simp
  have 5: "field (JObj 0 (JSON_stringify ?fs)) ''headers'' = field message ''headers''"
    unfolding f by simp
  have 6: "field (JObj 0 (JSON_stringify ?fs)) ''body'' = field message ''body''"
    unfolding f by simp
  have 7: "field (JObj 0 (JSON_stringify ?fs)) ''query'' = field message ''query''"
    unfolding f by simp
  have 8: "field (JObj 0 (JSON_stringify ?fs)) ''requestId'' = ?rid"
    unfolding f by simp
  have 9: "Map_get (pendingRequests (fst (handleRequest s ws message now))) ?rid =
       Some \<lparr>clientWs = ws, originalRequest = message\<rparr>"
    unfolding handleRequest_pending [OF assms] by (simp add: AList.update_conv')
  show ?thesis
    using 1 2 3 4 5 6 7 8 9 by (intro exI [of _ "JSON_stringify ?fs"]) (simp only: simp_thms)
qed

lemma ex_egress_only_fields:
  "clients ex_egress_only = [] \<and> master ex_egress_only = Some 0 \<and>
   pendingRequests ex_egress_only = [] \<and> wsClientId ex_egress_only 2 = JUndefined"
  by (simp add: ex_egress_only_def ex_eval)

lemma ex_request_dup_fields:
  "field ex_request_dup ''type'' = JStr ''request'' \<and>
   field ex_request_dup ''requestId'' = JStr ''r1'' \<and>
   ex_request_dup \<noteq> ex_request"
  by (simp add: ex_request_dup_def ex_request_def)

lemma map_of_filter_distinct:
  "distinct (map fst m) \<Longrightarrow>
   (map_of (filter P m) k = Some v) = (map_of m k = Some v \<and> P (k, v))"
  by (simp add: distinct_map_filter)

lemma disconnect_clients:
  "master s \<noteq> Some ws \<Longrightarrow> truthy (wsClientId s ws) \<Longrightarrow>
   clients (handleDisconnection s ws) = Map_delete (wsClientId s ws) (clients s)"
  by (simp add: handleDisconnection_def Let_def)

lemma disconnect_master_slot:
  "master s \<noteq> Some ws \<Longrightarrow> master (handleDisconnection s ws) = master s"
  by (simp add: handleDisconnection_def Let_def)

lemma ex_twice_fields:
  "clients ex_twice = [(JStr ''c1'', 2), (JStr ''c2'', 2)] \<and> master ex_twice = None \<and>
   wsClientId ex_twice 2 = JStr ''c2'' \<and> pendingRequests ex_twice = []"
  by (simp add: ex_twice_def ex_eval)

lemma ex_twice_reachable: "reachable ex_twice"
  unfolding ex_twice_def by (rule reachable_run) (rule reachable_init)

lemma ex_broker_clientId: "wsClientId ex_broker 2 = JStr ''c1''"
  by (simp add: ex_broker_def ex_eval ex_request_def)

lemma ex_broker_requestId: "requestId ex_broker = 0"
  by (simp add: ex_broker_def ex_eval ex_request_def)

lemma show_nat_examples: "show_nat (Suc 0) = ''1''" "show_nat 1004 = ''1004''"
  by (simp_all add: show_nat.simps)

lemma clearTimeout_pending:
  "localPending (clearTimeout s t) = localPending s"
  by (simp add: clearTimeout_def)

lemma res_calls_no_throw:
  "\<forall>c. \<not> throws c \<Longrightarrow> res_calls throws r cs = (map (Res r) cs, False)"
  by (induction cs) simp_all

lemma distinct_client_handleRequest:
  "distinct (map fst (localPending s)) \<Longrightarrow>
   distinct (map fst (localPending (fst (client_handleRequest s req r uuid))))"
  by (simp add: client_handleRequest_def Let_def AList.distinct_update)

lemma distinct_client_handleResponse:
  "distinct (map fst (localPending s)) \<Longrightarrow>
   distinct (map fst (localPending (fst (client_handleResponse throws s message))))"
  by (simp add: client_handleResponse_def Let_def clearTimeout_pending AList.distinct_delete
      split: option.splits prod.splits)

lemma distinct_client_handleError:
  "distinct (map fst (localPending s)) \<Longrightarrow>
   distinct (map fst (localPending (fst (client_handleError throws s message))))"
  by (simp add: client_handleError_def Let_def clearTimeout_pending AList.distinct_delete
      split: option.splits prod.splits)

lemma distinct_timeout_callback:
  "distinct (map fst (localPending s)) \<Longrightarrow>
   distinct (map fst (localPending (fst (timeout_callback throws s rid r))))"
  by (simp add: timeout_callback_def AList.distinct_delete split: prod.splits)

lemma distinct_timer_fires:
  "distinct (map fst (localPending s)) \<Longrightarrow>
   distinct (map fst (localPending (fst (timer_fires throws s t))))"
  by (simp add: timer_fires_def distinct_timeout_callback split: option.splits prod.splits)

lemma distinct_client_on_message:
  "distinct (map fst (localPending s)) \<Longrightarrow>
   distinct (map fst (localPending (fst (client_on_message throws s d))))"
  by (simp add: client_on_message_def distinct_client_handleResponse
      distinct_client_handleError split: option.splits)

lemma distinct_client_step:
  "distinct (map fst (localPending s)) \<Longrightarrow>
   distinct (map fst (localPending (fst (client_step throws s e))))"
  by (cases e) (simp_all add: client_step.simps distinct_client_handleRequest
      distinct_client_on_message distinct_timer_fires)

lemma client_reachable_distinct:
  "client_reachable throws s \<Longrightarrow> distinct (map fst (localPending s))"
  by (induction rule: client_reachable.induct) (simp_all add: client_init_def distinct_client_step)

lemma ex_client_reachable: "client_reachable ex_throws ex_client"
  unfolding ex_client_def
  by (intro client_reachable_step client_reachable_init)

lemma ex_client_fields:
  "localPending ex_client = [(JStr ''u1'', 7)] \<and> timers ex_client = [(0, (JStr ''u1'', 7))] \<and>
   resTimeout ex_client 7 = Some 0 \<and> isConnected ex_client"
  by (simp add: ex_client_def client_step.simps client_init_def client_handleRequest_def Let_def)

lemma ex_throws_simps:
  "ex_throws (Status v) = False"
  "ex_throws (SetHeader name v) = (name = ''bad header'')"
  "ex_throws (SendBody v) = False"
  "ex_throws End = False"
  "ex_throws (Json fs) = False"
  by (simp_all add: ex_throws_def)

lemma ex_first_response:
  "client_step ex_throws ex_client (WsMessage (Some ex_client_response_bad)) =
     (clearTimeout ex_client 0,
      [Res 7 (Status (JNum 200)), Res 7 (SetHeader ''bad header'' (JStr ''x''))])"
  by (simp add: client_step.simps client_on_message_def client_handleResponse_def
      ex_client_response_bad_def ex_client_fields ex_throws_simps)

lemma ex_client_stuck_fields:
  "localPending ex_client_stuck = [(JStr ''u1'', 7)] \<and> timers ex_client_stuck = [] \<and>
   resTimeout ex_client_stuck 7 = Some 0"
  by (simp add: ex_client_stuck_def ex_first_response clearTimeout_def ex_client_fields
      AList.delete_eq)

lemma ex_client_stuck_reachable: "client_reachable ex_throws ex_client_stuck"
  unfolding ex_client_stuck_def
  by (intro client_reachable_step ex_client_reachable)

lemma client_handleResponse_found:
  "\<forall>c. \<not> throws c \<Longrightarrow>
   Map_get (localPending s) (field message ''requestId'') = Some r \<Longrightarrow>
   localPending (fst (client_handleResponse throws s message)) =
     Map_delete (field message ''requestId'') (localPending s) \<and>
   snd (client_handleResponse throws s message) =
     map (Res r)
       ([Status (field message ''statusCode'')]
        @ (if truthy (field message ''headers'')
           then map (\<lambda>kv. SetHeader (fst kv) (snd kv)) (own_entries (field message ''headers''))
           else [])
        @ [if truthy (field message ''body'') then SendBody (field message ''body'') else End])"
  by (simp add: client_handleResponse_def Let_def clearTimeout_pending res_calls_no_throw
      split: option.splits)

lemma client_handleError_found:
  "\<forall>c. \<not> throws c \<Longrightarrow>
   Map_get (localPending s) (field message ''requestId'') = Some r \<Longrightarrow>
   localPending (fst (client_handleError throws s message)) =
     Map_delete (field message ''requestId'') (localPending s) \<and>
   snd (client_handleError throws s message) =
     [Res r (Status (JNum 500)), Res r (Json [(''error'', field message ''error'')])]"
  by (simp add: client_handleError_def Let_def clearTimeout_pending res_calls_no_throw
      split: option.splits)

lemma timeout_callback_found:
  "\<forall>c. \<not> throws c \<Longrightarrow> Map_get (localPending s) rid = Some r' \<Longrightarrow>
   localPending (fst (timeout_callback throws s rid r)) = Map_delete rid (localPending s) \<and>
   snd (timeout_callback throws s rid r) =
     [Res r (Status (JNum 504)), Res r (Json [(''error'', JStr ''Request timeout'')])]"
  by (simp add: timeout_callback_def Map_has_def res_calls_no_throw)

lemma outcome_step_absent:
  "Map_get (localPending s) (outcome_id x) = None \<Longrightarrow> outcome_step throws s x = (s, [])"
  by (cases x) (simp_all add: client_handleResponse_def client_handleError_def
      timeout_callback_def Map_has_def)

lemma outcome_for_id: "outcome_for rid r x \<Longrightarrow> outcome_id x = rid"
  by (cases x) (simp_all add: outcome_for_def)

lemma outcome_run_absent:
  "Map_get (localPending s) rid = None \<Longrightarrow> \<forall>x \<in> set xs. outcome_id x = rid \<Longrightarrow>
   outcome_run throws s xs = (s, [])"
  by (induction xs) (simp_all add: outcome_step_absent)

lemma outcome_step_first:
  assumes "\<forall>c. \<not> throws c"
    and "Map_get (localPending s) rid = Some r" and "outcome_for rid r x"
  shows "Map_get (localPending (fst (outcome_step throws s x))) rid = None"
    and "snd (outcome_step throws s x) \<noteq> []"
    and "\<forall>a \<in> set (snd (outcome_step throws s x)). \<exists>c. a = Res r c"
proof -
  show "Map_get (localPending (fst (outcome_step throws s x))) rid = None"
    using assms
    by (cases x) (simp_all add: outcome_for_def client_handleResponse_found
        client_handleError_found timeout_callback_found AList.delete_conv')
  show "snd (outcome_step throws s x) \<noteq> []"
    using assms
    by (cases x) (simp_all add: outcome_for_def client_handleResponse_found
        client_handleError_found timeout_callback_found)
  show "\<forall>a \<in> set (snd (outcome_step throws s x)). \<exists>c. a = Res r c"
    using assms
    by (cases x) (auto simp: outcome_for_def client_handleResponse_found
        client_handleError_found timeout_callback_found)
qed

text \<open>
  As long as no call on a response handle throws, the first outcome for a pending
  ID acts on its response handle only and removes the entry, and every later outcome
  for the ID does nothing.
\<close>

lemma first_outcome_wins_when_no_call_throws:
  assumes "\<forall>c. \<not> throws c"
    and "Map_get (localPending s) rid = Some r" and "outcome_for rid r x"
    and "\<forall>y \<in> set xs. outcome_id y = rid"
  shows "outcome_run throws s (x # xs) = outcome_step throws s x"
    and "snd (outcome_step throws s x) \<noteq> []"
    and "\<forall>a \<in> set (snd (outcome_step throws s x)). \<exists>c. a = Res r c"
    and "Map_get (localPending (fst (outcome_step throws s x))) rid = None"
proof -
  show gone: "Map_get (localPending (fst (outcome_step throws s x))) rid = None"
    using assms(1-3) by (rule outcome_step_first(1))
  have rest: "outcome_run throws (fst (outcome_step throws s x)) xs =
      (fst (outcome_step throws s x), [])"
    using gone assms(4) by (rule outcome_run_absent)
  show "outcome_run throws s (x # xs) = outcome_step throws s x"
    using rest by (cases "outcome_step throws s x") simp
  show "snd (outcome_step throws s x) \<noteq> []"
    using assms(1-3) by (rule outcome_step_first(2))
  show "\<forall>a \<in> set (snd (outcome_step throws s x)). \<exists>c. a = Res r c"
    using assms(1-3) by (rule outcome_step_first(3))
qed

section \<open>The claims\<close>

text \<open>
  Claim C1. A Response envelope that arrives on a connection other than the registered
  egress connection is dropped and the broker state is unchanged; one whose
  \<^verbatim>\<open>requestId\<close> is not a key of the pending table is dropped and the state is
  unchanged; otherwise exactly one Response envelope with the same \<^verbatim>\<open>requestId\<close>,
  \<^verbatim>\<open>statusCode\<close>, \<^verbatim>\<open>headers\<close> and \<^verbatim>\<open>body\<close> is sent to the connection recorded
  for that \<^verbatim>\<open>requestId\<close>, that entry alone is removed, and every later Response with
  the same \<^verbatim>\<open>requestId\<close> is dropped.
\<close>

theorem C1_response_relay:
  "field message ''type'' = JStr ''response'' \<Longrightarrow>
   (Some ws \<noteq> master s \<longrightarrow>
      broker_step s (Message ws (Some message) now) = (s, [])) \<and>
   (Map_get (pendingRequests s) (field message ''requestId'') = None \<longrightarrow>
      broker_step s (Message ws (Some message) now) = (s, [])) \<and>
   (\<forall>p. Some ws = master s \<and>
        Map_get (pendingRequests s) (field message ''requestId'') = Some p \<longrightarrow>
      (\<exists>payload.
         snd (broker_step s (Message ws (Some message) now)) = [Send (clientWs p) payload] \<and>
         field (JObj 0 payload) ''type'' = JStr ''response'' \<and>
         field (JObj 0 payload) ''requestId'' = field message ''requestId'' \<and>
         field (JObj 0 payload) ''statusCode'' = field message ''statusCode'' \<and>
         field (JObj 0 payload) ''headers'' = field message ''headers'' \<and>
         field (JObj 0 payload) ''body'' = field message ''body'') \<and>
      fst (broker_step s (Message ws (Some message) now)) =
        s\<lparr>pendingRequests := Map_delete (field message ''requestId'') (pendingRequests s)\<rparr> \<and>
      Map_get (pendingRequests (fst (broker_step s (Message ws (Some message) now))))
        (field message ''requestId'') = None \<and>
      (\<forall>k. k \<noteq> field message ''requestId'' \<longrightarrow>
         Map_get (pendingRequests (fst (broker_step s (Message ws (Some message) now)))) k =
         Map_get (pendingRequests s) k) \<and>
      (\<forall>ws2 message2 now2.
         field message2 ''type'' = JStr ''response'' \<and>
         field message2 ''requestId'' = field message ''requestId'' \<longrightarrow>
         broker_step (fst (broker_step s (Message ws (Some message) now)))
           (Message ws2 (Some message2) now2) =
         (fst (broker_step s (Message ws (Some message) now)), [])))"
proof -
  assume t: "field message ''type'' = JStr ''response''"
  let ?r = "broker_step s (Message ws (Some message) now)"
  have step: "?r = handleResponse s ws message"
    using t by (rule dispatch_response)
  have a: "Some ws \<noteq> master s \<longrightarrow> ?r = (s, [])"
    unfolding step by (simp add: handleResponse_stale)
  have b: "Map_get (pendingRequests s) (field message ''requestId'') = None \<longrightarrow> ?r = (s, [])"
    unfolding step by (simp add: handleResponse_unknown)
  have c: "\<And>p. Some ws = master s \<and>
        Map_get (pendingRequests s) (field message ''requestId'') = Some p \<Longrightarrow>
      (\<exists>payload.
         snd ?r = [Send (clientWs p) payload] \<and>
         field (JObj 0 payload) ''type'' = JStr ''response'' \<and>
         field (JObj 0 payload) ''requestId'' = field message ''requestId'' \<and>
         field (JObj 0 payload) ''statusCode'' = field message ''statusCode'' \<and>
         field (JObj 0 payload) ''headers'' = field message ''headers'' \<and>
         field (JObj 0 payload) ''body'' = field message ''body'') \<and>
      fst ?r = s\<lparr>pendingRequests := Map_delete (field message ''requestId'') (pendingRequests s)\<rparr> \<and>
      Map_get (pendingRequests (fst ?r)) (field message ''requestId'') = None \<and>
      (\<forall>k. k \<noteq> field message ''requestId'' \<longrightarrow>
         Map_get (pendingRequests (fst ?r)) k = Map_get (pendingRequests s) k) \<and>
      (\<forall>ws2 message2 now2.
         field message2 ''type'' = JStr ''response'' \<and>
         field message2 ''requestId'' = field message ''requestId'' \<longrightarrow>
         broker_step (fst ?r) (Message ws2 (Some message2) now2) = (fst ?r, []))"
  proof -
    fix p
    assume h: "Some ws = master s \<and>
        Map_get (pendingRequests s) (field message ''requestId'') = Some p"
    then have m: "Some ws = master s"
      and g: "Map_get (pendingRequests s) (field message ''requestId'') = Some p" by simp_all
    have st: "fst ?r =
        s\<lparr>pendingRequests := Map_delete (field message ''requestId'') (pendingRequests s)\<rparr>"
      unfolding step using m g by (rule handleResponse_state)
    have gone: "Map_get (pendingRequests (fst ?r)) (field message ''requestId'') = None"
      by (simp add: st AList.delete_conv')
    have others: "\<forall>k. k \<noteq> field message ''requestId'' \<longrightarrow>
         Map_get (pendingRequests (fst ?r)) k = Map_get (pendingRequests s) k"
      by (simp add: st AList.delete_conv')
    have snd: "\<exists>payload.
         snd ?r = [Send (clientWs p) payload] \<and>
         field (JObj 0 payload) ''type'' = JStr ''response'' \<and>
         field (JObj 0 payload) ''requestId'' = field message ''requestId'' \<and>
         field (JObj 0 payload) ''statusCode'' = field message ''statusCode'' \<and>
         field (JObj 0 payload) ''headers'' = field message ''headers'' \<and>
         field (JObj 0 payload) ''body'' = field message ''body''"
      unfolding step using m g by (rule handleResponse_sends)
    have again: "\<forall>ws2 message2 now2.
         field message2 ''type'' = JStr ''response'' \<and>
         field message2 ''requestId'' = field message ''requestId'' \<longrightarrow>
         broker_step (fst ?r) (Message ws2 (Some message2) now2) = (fst ?r, [])"
    proof (intro allI impI)
      fix ws2 message2 now2
      assume h2: "field message2 ''type'' = JStr ''response'' \<and>
         field message2 ''requestId'' = field message ''requestId''"
      then have "broker_step (fst ?r) (Message ws2 (Some message2) now2) =
          handleResponse (fst ?r) ws2 message2"
        by (simp add: dispatch_response)
      also have "\<dots> = (fst ?r, [])"
        using gone h2 by (simp add: handleResponse_unknown)
      finally show "broker_step (fst ?r) (Message ws2 (Some message2) now2) = (fst ?r, [])" .
    qed
    from snd st gone others again show "?thesis p" by (intro conjI)
  qed
  from a b c show ?thesis by blast
qed


theorem C1_response_relay_witness:
  "field ex_response ''type'' = JStr ''response'' \<and>
   Some 0 = master ex_broker \<and>
   Map_get (pendingRequests ex_broker) (field ex_response ''requestId'') =
     Some \<lparr>clientWs = 2, originalRequest = ex_request\<rparr> \<and>
   snd (broker_step ex_broker (Message 0 (Some ex_response) 1003)) =
     [Send 2 [(''type'', JStr ''response''), (''requestId'', JStr ''r1''),
              (''statusCode'', JNum 200),
              (''headers'', JObj 6 [(''content-type'', JStr ''application/json'')]),
              (''body'', JObj 7 [(''ok'', JBool True)])]] \<and>
   pendingRequests (fst (broker_step ex_broker (Message 0 (Some ex_response) 1003))) = [] \<and>
   broker_step (fst (broker_step ex_broker (Message 0 (Some ex_response) 1003)))
     (Message 0 (Some ex_response) 1004) =
     (fst (broker_step ex_broker (Message 0 (Some ex_response) 1003)), []) \<and>
   Some 2 \<noteq> master ex_broker \<and>
   broker_step ex_broker (Message 2 (Some ex_response) 1003) = (ex_broker, []) \<and>
   field ex_response_unknown ''type'' = JStr ''response'' \<and>
   Map_get (pendingRequests ex_broker) (field ex_response_unknown ''requestId'') = None \<and>
   broker_step ex_broker (Message 0 (Some ex_response_unknown) 1003) = (ex_broker, [])"
proof -
  have t: "field ex_response ''type'' = JStr ''response''"
    by (simp add: ex_response_def)
  have tu: "field ex_response_unknown ''type'' = JStr ''response''"
    by (simp add: ex_response_unknown_def)
  have g: "Map_get (pendingRequests ex_broker) (field ex_response ''requestId'') =
     Some \<lparr>clientWs = 2, originalRequest = ex_request\<rparr>"
    by (simp add: ex_response_def ex_broker_pending)
  have gu: "Map_get (pendingRequests ex_broker) (field ex_response_unknown ''requestId'') = None"
    by (simp add: ex_response_unknown_def ex_broker_pending)
  have m: "Some 0 = master ex_broker" "Some 2 \<noteq> master ex_broker"
    by (simp_all add: ex_broker_master)
  have sent: "snd (handleResponse ex_broker 0 ex_response) =
     [Send 2 [(''type'', JStr ''response''), (''requestId'', JStr ''r1''),
              (''statusCode'', JNum 200),
              (''headers'', JObj 6 [(''content-type'', JStr ''application/json'')]),
              (''body'', JObj 7 [(''ok'', JBool True)])]]"
    by (simp add: handleResponse_def ex_broker_master ex_broker_pending ex_response_def
        JSON_stringify_def)
  have left: "Map_delete (JStr ''r1'') (pendingRequests ex_broker) = []"
    by (simp add: ex_broker_pending AList.delete_eq)
  have rid: "field ex_response ''requestId'' = JStr ''r1''"
    by (simp add: ex_response_def)
  note main = C1_response_relay [OF t, of 0 ex_broker 1003]
  note stale = C1_response_relay [OF t, of 2 ex_broker 1003]
  note unknown = C1_response_relay [OF tu, of 0 ex_broker 1003]
  from main m(1) g have
    st: "fst (broker_step ex_broker (Message 0 (Some ex_response) 1003)) =
        ex_broker\<lparr>pendingRequests :=
          Map_delete (field ex_response ''requestId'') (pendingRequests ex_broker)\<rparr>"
    and again: "broker_step (fst (broker_step ex_broker (Message 0 (Some ex_response) 1003)))
     (Message 0 (Some ex_response) 1004) =
     (fst (broker_step ex_broker (Message 0 (Some ex_response) 1003)), [])"
    using t by blast+
  have s1: "snd (broker_step ex_broker (Message 0 (Some ex_response) 1003)) =
      snd (handleResponse ex_broker 0 ex_response)"
    using t by (simp add: dispatch_response)
  have p: "pendingRequests (fst (broker_step ex_broker (Message 0 (Some ex_response) 1003))) = []"
    by (simp add: st rid left)
  from stale m(2) have
    x: "broker_step ex_broker (Message 2 (Some ex_response) 1003) = (ex_broker, [])"
    by blast
  from unknown gu have
    y: "broker_step ex_broker (Message 0 (Some ex_response_unknown) 1003) = (ex_broker, [])"
    by blast
  show ?thesis
    using t tu g gu m sent s1 p again x y by simp
qed

text \<open>
  Claim C2 (as amended). When the real call emits an error, times out after the 30
  seconds, or cannot be issued, the executor sends the broker exactly one envelope
  for the request. It is a Response envelope (tag \<^verbatim>\<open>response\<close>, not \<^verbatim>\<open>error\<close>) with the
  request's \<^verbatim>\<open>requestId\<close>, status code 500, the header
  \<^verbatim>\<open>content-type: application/json\<close> and the body \<^verbatim>\<open>{error: message}\<close>, where the
  message is the failure's (\<^verbatim>\<open>Request timeout\<close> for the timeout).
\<close>

theorem C2_failure_sent_as_response:
  "field message ''type'' = JStr ''request'' \<Longrightarrow>
   ev = OnError e \<or> ev = Thrown e \<or> (ev = OnTimeout \<and> e = ''Request timeout'') \<Longrightarrow>
   master_on_message P (Some message) ev = master_handleRequest P message ev \<and>
   master_handleRequest P message ev = [sendError (field message ''requestId'') e] \<and>
   field (JObj 0 (sendError (field message ''requestId'') e)) ''type'' = JStr ''response'' \<and>
   field (JObj 0 (sendError (field message ''requestId'') e)) ''requestId'' =
     field message ''requestId'' \<and>
   field (JObj 0 (sendError (field message ''requestId'') e)) ''statusCode'' = JNum 500 \<and>
   field (JObj 0 (sendError (field message ''requestId'') e)) ''headers'' =
     JObj 0 [(''content-type'', JStr ''application/json'')] \<and>
   field (JObj 0 (sendError (field message ''requestId'') e)) ''body'' =
     JObj 0 [(''error'', JStr e)]"
proof -
  assume t: "field message ''type'' = JStr ''request''"
    and ev: "ev = OnError e \<or> ev = Thrown e \<or> (ev = OnTimeout \<and> e = ''Request timeout'')"
  have d: "master_on_message P (Some message) ev = master_handleRequest P message ev"
    using t by (auto simp: master_on_message_def)
  from ev have "forwardRequest P message ev = Inl e"
    by (auto simp: forwardRequest_def)
  then have "master_handleRequest P message ev = [sendError (field message ''requestId'') e]"
    by (simp add: master_handleRequest_def)
  then show ?thesis
    using d sendError_fields [of 0 "field message ''requestId''" e] by simp
qed

theorem C2_failure_sent_as_response_witness:
  "field ex_request ''type'' = JStr ''request'' \<and>
   master_on_message ex_parse (Some ex_request) OnTimeout =
     master_handleRequest ex_parse ex_request OnTimeout \<and>
   master_handleRequest ex_parse ex_request OnTimeout =
     [[(''type'', JStr ''response''), (''requestId'', JStr ''r1''), (''statusCode'', JNum 500),
       (''headers'', JObj 0 [(''content-type'', JStr ''application/json'')]),
       (''body'', JObj 0 [(''error'', JStr ''Request timeout'')])]] \<and>
   master_handleRequest ex_parse ex_request (OnError ''connect ECONNREFUSED'') =
     [[(''type'', JStr ''response''), (''requestId'', JStr ''r1''), (''statusCode'', JNum 500),
       (''headers'', JObj 0 [(''content-type'', JStr ''application/json'')]),
       (''body'', JObj 0 [(''error'', JStr ''connect ECONNREFUSED'')])]]"
  using C2_failure_sent_as_response
      [of ex_request OnTimeout "''Request timeout''" ex_parse]
    C2_failure_sent_as_response
      [of ex_request "OnError ''connect ECONNREFUSED''" "''connect ECONNREFUSED''" ex_parse]
  by (simp add: sendError_def JSON_stringify_def ex_request_def)

text \<open>
  The envelope sent for a refused connection has the tag \<^verbatim>\<open>response\<close>: the claim's
  tag \<^verbatim>\<open>error\<close> does not hold.
\<close>

theorem C2_error_kind_counterexample:
  "field ex_request ''type'' = JStr ''request'' \<and>
   master_on_message ex_parse (Some ex_request) (OnError ''connect ECONNREFUSED'') =
     [[(''type'', JStr ''response''), (''requestId'', JStr ''r1''), (''statusCode'', JNum 500),
       (''headers'', JObj 0 [(''content-type'', JStr ''application/json'')]),
       (''body'', JObj 0 [(''error'', JStr ''connect ECONNREFUSED'')])]] \<and>
   field (JObj 0 (hd (master_on_message ex_parse (Some ex_request)
     (OnError ''connect ECONNREFUSED'')))) ''type'' \<noteq> JStr ''error''"
  by (simp add: master_on_message_def master_handleRequest_def forwardRequest_def sendError_def
      JSON_stringify_def ex_request_def)

text \<open>
  Claim C3, what the code does when a call on the response handle throws. A request
  is pending under the ID \<^verbatim>\<open>u1\<close> with response handle 7 and an armed timer. A first
  Response envelope for \<^verbatim>\<open>u1\<close> carries a header that the handle rejects:
  \<^verbatim>\<open>handleResponse\<close> clears the timer, calls \<^verbatim>\<open>status\<close> and \<^verbatim>\<open>set\<close> on the
  handle, and the exception skips the deletion, so the entry is still in the table
  and its timer never fires. A second Response envelope for \<^verbatim>\<open>u1\<close> finds the
  entry, acts on the same handle again, and only then is the entry removed.
\<close>

theorem C3_second_response_acts:
  "client_reachable ex_throws ex_client_stuck \<and>
   Map_get (localPending ex_client) (JStr ''u1'') = Some 7 \<and>
   timers ex_client = [(0, (JStr ''u1'', 7))] \<and>
   field ex_client_response_bad ''requestId'' = JStr ''u1'' \<and>
   snd (client_step ex_throws ex_client (WsMessage (Some ex_client_response_bad))) =
     [Res 7 (Status (JNum 200)), Res 7 (SetHeader ''bad header'' (JStr ''x''))] \<and>
   ex_client_stuck =
     fst (client_step ex_throws ex_client (WsMessage (Some ex_client_response_bad))) \<and>
   Map_get (localPending ex_client_stuck) (JStr ''u1'') = Some 7 \<and>
   timers ex_client_stuck = [] \<and>
   timer_fires ex_throws ex_client_stuck 0 = (ex_client_stuck, []) \<and>
   field ex_client_response ''requestId'' = JStr ''u1'' \<and>
   snd (client_step ex_throws ex_client_stuck (WsMessage (Some ex_client_response))) =
     [Res 7 (Status (JNum 200)),
      Res 7 (SetHeader ''content-type'' (JStr ''application/json'')),
      Res 7 (SendBody (JObj 25 [(''ok'', JBool True)]))] \<and>
   localPending (fst (client_step ex_throws ex_client_stuck
     (WsMessage (Some ex_client_response)))) = []"
proof -
  have second: "client_step ex_throws ex_client_stuck (WsMessage (Some ex_client_response)) =
     ((clearTimeout ex_client_stuck 0)\<lparr>localPending := []\<rparr>,
      [Res 7 (Status (JNum 200)),
       Res 7 (SetHeader ''content-type'' (JStr ''application/json'')),
       Res 7 (SendBody (JObj 25 [(''ok'', JBool True)]))])"
    by (simp add: client_step.simps client_on_message_def client_handleResponse_def
        ex_client_response_def ex_client_stuck_fields ex_throws_simps clearTimeout_pending
        AList.delete_eq)
  have fires: "timer_fires ex_throws ex_client_stuck 0 = (ex_client_stuck, [])"
    by (simp add: timer_fires_def ex_client_stuck_fields)
  have ids: "field ex_client_response_bad ''requestId'' = JStr ''u1''"
    "field ex_client_response ''requestId'' = JStr ''u1''"
    by (simp_all add: ex_client_response_bad_def ex_client_response_def)
  have first: "snd (client_step ex_throws ex_client (WsMessage (Some ex_client_response_bad))) =
     [Res 7 (Status (JNum 200)), Res 7 (SetHeader ''bad header'' (JStr ''x''))]"
    by (simp add: ex_first_response)
  have pend: "Map_get (localPending ex_client) (JStr ''u1'') = Some 7"
    "timers ex_client = [(0, (JStr ''u1'', 7))]"
    "Map_get (localPending ex_client_stuck) (JStr ''u1'') = Some 7"
    "timers ex_client_stuck = []"
    by (simp_all add: ex_client_fields ex_client_stuck_fields)
  have s2: "snd (client_step ex_throws ex_client_stuck (WsMessage (Some ex_client_response))) =
     [Res 7 (Status (JNum 200)),
      Res 7 (SetHeader ''content-type'' (JStr ''application/json'')),
      Res 7 (SendBody (JObj 25 [(''ok'', JBool True)]))]"
    "localPending (fst (client_step ex_throws ex_client_stuck
       (WsMessage (Some ex_client_response)))) = []"
    by (simp_all add: second)
  show ?thesis
    using ex_client_stuck_reachable pend ids first ex_client_stuck_def fires s2
    by (intro conjI)
qed
text \<open>
  Claim C4 (as amended). A Request envelope received while no egress connection is
  registered leaves the broker state as it is and is answered, on the same
  connection, with one Error envelope (tag \<^verbatim>\<open>error\<close>, the request's \<^verbatim>\<open>requestId\<close>,
  the text \<^verbatim>\<open>Master computer not available\<close>). When the registered egress connection
  closes or fails, in a reachable state, the broker sends nothing, clears the egress
  slot, keeps the ingress set, and keeps every pending entry owned by another
  connection; the entries owned by the closing connection itself are removed.
\<close>

theorem C4_no_egress:
  "(master s = None \<and> field message ''type'' = JStr ''request'' \<longrightarrow>
      (\<exists>payload.
         broker_step s (Message ws (Some message) now) = (s, [Send ws payload]) \<and>
         field (JObj 0 payload) ''type'' = JStr ''error'' \<and>
         field (JObj 0 payload) ''requestId'' = field message ''requestId'' \<and>
         field (JObj 0 payload) ''error'' = JStr ''Master computer not available'')) \<and>
   (reachable s \<and> master s = Some ws \<longrightarrow>
      broker_step s (Error ws) = broker_step s (Close ws) \<and>
      snd (broker_step s (Close ws)) = [] \<and>
      master (fst (broker_step s (Close ws))) = None \<and>
      clients (fst (broker_step s (Close ws))) = clients s \<and>
      pendingRequests (fst (broker_step s (Close ws))) =
        filter (\<lambda>e. clientWs (snd e) \<noteq> ws) (pendingRequests s))"
proof (intro conjI impI)
  assume h: "master s = None \<and> field message ''type'' = JStr ''request''"
  then have "broker_step s (Message ws (Some message) now) = handleRequest s ws message now"
    by (simp add: dispatch_request)
  also have "\<dots> = (s, [Send ws (JSON_stringify
            [(''type'', JStr ''error''),
             (''requestId'', field message ''requestId''),
             (''error'', JStr ''Master computer not available'')])])"
    using h by (simp add: handleRequest_no_master)
  finally show "\<exists>payload.
         broker_step s (Message ws (Some message) now) = (s, [Send ws payload]) \<and>
         field (JObj 0 payload) ''type'' = JStr ''error'' \<and>
         field (JObj 0 payload) ''requestId'' = field message ''requestId'' \<and>
         field (JObj 0 payload) ''error'' = JStr ''Master computer not available''"
    using no_master_fields [of 0 "field message ''requestId''"] by blast
next
  assume h: "reachable s \<and> master s = Some ws"
  show "broker_step s (Error ws) = broker_step s (Close ws)"
    by (simp add: step_close step_error)
  show "snd (broker_step s (Close ws)) = []"
    by (simp add: step_close)
  show "master (fst (broker_step s (Close ws))) = None"
    using h by (simp add: step_close disconnect_master)
  show "clients (fst (broker_step s (Close ws))) = clients s"
    using h by (simp add: step_close disconnect_master)
  show "pendingRequests (fst (broker_step s (Close ws))) =
        filter (\<lambda>e. clientWs (snd e) \<noteq> ws) (pendingRequests s)"
    using h by (simp add: step_close disconnect_pending reachable_distinct)
qed

theorem C4_no_egress_witness:
  "master broker_init = None \<and> field ex_request ''type'' = JStr ''request'' \<and>
   broker_step broker_init (Message 2 (Some ex_request) 1000) =
     (broker_init,
      [Send 2 [(''type'', JStr ''error''), (''requestId'', JStr ''r1''),
               (''error'', JStr ''Master computer not available'')]]) \<and>
   reachable ex_broker \<and> master ex_broker = Some 0 \<and>
   snd (broker_step ex_broker (Close 0)) = [] \<and>
   master (fst (broker_step ex_broker (Close 0))) = None \<and>
   clients (fst (broker_step ex_broker (Close 0))) = [(JStr ''c1'', 2)] \<and>
   pendingRequests (fst (broker_step ex_broker (Close 0))) =
     [(JStr ''r1'', \<lparr>clientWs = 2, originalRequest = ex_request\<rparr>)]"
proof -
  have a: "master broker_init = None \<and> field ex_request ''type'' = JStr ''request''"
    by (simp add: broker_init_def ex_request_def)
  have b: "reachable ex_broker \<and> master ex_broker = Some 0"
    by (simp add: ex_broker_reachable ex_broker_master)
  have e: "broker_step broker_init (Message 2 (Some ex_request) 1000) =
     (broker_init,
      [Send 2 [(''type'', JStr ''error''), (''requestId'', JStr ''r1''),
               (''error'', JStr ''Master computer not available'')]])"
    by (simp add: ex_eval ex_request_def)
  note C4_no_egress [where s = broker_init and ws = 2 and message = ex_request and now = 1000]
  from C4_no_egress [where s = ex_broker and ws = 0 and message = ex_request and now = 1000] b
  have "snd (broker_step ex_broker (Close 0)) = [] \<and>
      master (fst (broker_step ex_broker (Close 0))) = None \<and>
      clients (fst (broker_step ex_broker (Close 0))) = clients ex_broker \<and>
      pendingRequests (fst (broker_step ex_broker (Close 0))) =
        filter (\<lambda>e. clientWs (snd e) \<noteq> 0) (pendingRequests ex_broker)"
    by blast
  then show ?thesis
    using a b e by (simp add: ex_broker_clients ex_broker_pending)
qed

text \<open>
  The egress connection has sent a request of its own, which is pending; when the
  egress connection closes, that entry is removed from the pending table.
\<close>

theorem C4_egress_disconnect_counterexample:
  "reachable ex_egress_self \<and>
   master ex_egress_self = Some 0 \<and>
   pendingRequests ex_egress_self =
     [(JStr ''r1'', \<lparr>clientWs = 0, originalRequest = ex_request\<rparr>)] \<and>
   pendingRequests (fst (broker_step ex_egress_self (Close 0))) = []"
  by (simp add: ex_egress_self_reachable ex_egress_self_master ex_egress_self_pending
      step_close disconnect_pending)

text \<open>
  Claim C5 (as amended). The broker has no registration gate. It never closes or
  terminates a connection, whatever event it handles. How it handles a Request or a
  Response envelope does not depend on the ingress set nor on any \<^verbatim>\<open>clientId\<close>
  stored on a connection, so not on whether the sender has registered. A Request
  envelope from any connection, also as its first message, is recorded in the pending
  table for that connection and forwarded to the registered egress connection.
\<close>

theorem C5_no_registration_gate:
  "Terminate c \<notin> set (snd (broker_step s ev)) \<and>
   (field message ''type'' = JStr ''request'' \<or> field message ''type'' = JStr ''response'' \<longrightarrow>
      broker_step (s\<lparr>clients := cs, wsClientId := w\<rparr>) (Message ws (Some message) now) =
        ((fst (broker_step s (Message ws (Some message) now)))\<lparr>clients := cs, wsClientId := w\<rparr>,
         snd (broker_step s (Message ws (Some message) now)))) \<and>
   (field message ''type'' = JStr ''request'' \<and> master s = Some m \<longrightarrow>
      (\<exists>payload.
         snd (broker_step s (Message ws (Some message) now)) = [Send m payload] \<and>
         field (JObj 0 payload) ''type'' = JStr ''request'' \<and>
         field (JObj 0 payload) ''method'' = field message ''method'' \<and>
         field (JObj 0 payload) ''path'' = field message ''path'' \<and>
         field (JObj 0 payload) ''headers'' = field message ''headers'' \<and>
         field (JObj 0 payload) ''body'' = field message ''body'' \<and>
         field (JObj 0 payload) ''query'' = field message ''query'' \<and>
         Map_get (pendingRequests (fst (broker_step s (Message ws (Some message) now))))
           (field (JObj 0 payload) ''requestId'') =
           Some \<lparr>clientWs = ws, originalRequest = message\<rparr>))"
proof (intro conjI impI)
  show "Terminate c \<notin> set (snd (broker_step s ev))"
    by (rule no_terminate_step)
next
  assume "field message ''type'' = JStr ''request'' \<or> field message ''type'' = JStr ''response''"
  then show "broker_step (s\<lparr>clients := cs, wsClientId := w\<rparr>) (Message ws (Some message) now) =
        ((fst (broker_step s (Message ws (Some message) now)))\<lparr>clients := cs, wsClientId := w\<rparr>,
         snd (broker_step s (Message ws (Some message) now)))"
    by (auto simp: dispatch_request dispatch_response handleRequest_registry
        handleResponse_registry)
next
  assume h: "field message ''type'' = JStr ''request'' \<and> master s = Some m"
  then have "broker_step s (Message ws (Some message) now) = handleRequest s ws message now"
    by (simp add: dispatch_request)
  then show "\<exists>payload.
         snd (broker_step s (Message ws (Some message) now)) = [Send m payload] \<and>
         field (JObj 0 payload) ''type'' = JStr ''request'' \<and>
         field (JObj 0 payload) ''method'' = field message ''method'' \<and>
         field (JObj 0 payload) ''path'' = field message ''path'' \<and>
         field (JObj 0 payload) ''headers'' = field message ''headers'' \<and>
         field (JObj 0 payload) ''body'' = field message ''body'' \<and>
         field (JObj 0 payload) ''query'' = field message ''query'' \<and>
         Map_get (pendingRequests (fst (broker_step s (Message ws (Some message) now))))
           (field (JObj 0 payload) ''requestId'') =
           Some \<lparr>clientWs = ws, originalRequest = message\<rparr>"
    using h handleRequest_forward [of s m ws message now] by simp
qed

theorem C5_no_registration_gate_witness:
  "field ex_request ''type'' = JStr ''request'' \<and> master ex_egress_only = Some 0 \<and>
   snd (broker_step ex_egress_only (Message 2 (Some ex_request) 1001)) =
     [Send 0 [(''type'', JStr ''request''), (''requestId'', JStr ''r1''),
              (''method'', JStr ''GET''), (''path'', JStr ''/status''),
              (''headers'', JObj 4 [(''accept'', JStr ''*/*'')])]] \<and>
   Map_get (pendingRequests (fst (broker_step ex_egress_only (Message 2 (Some ex_request) 1001))))
     (JStr ''r1'') = Some \<lparr>clientWs = 2, originalRequest = ex_request\<rparr>"
proof -
  have t: "field ex_request ''type'' = JStr ''request'' \<and> master ex_egress_only = Some 0"
    by (simp add: ex_request_def ex_egress_only_fields)
  have step: "broker_step ex_egress_only (Message 2 (Some ex_request) 1001) =
      handleRequest ex_egress_only 2 ex_request 1001"
    using t by (simp add: dispatch_request)
  have sent: "snd (handleRequest ex_egress_only 2 ex_request 1001) =
     [Send 0 [(''type'', JStr ''request''), (''requestId'', JStr ''r1''),
              (''method'', JStr ''GET''), (''path'', JStr ''/status''),
              (''headers'', JObj 4 [(''accept'', JStr ''*/*'')])]]"
    by (simp add: handleRequest_def ex_egress_only_fields Let_def JSON_stringify_def
        ex_request_def)
  from C5_no_registration_gate
    [where s = ex_egress_only and message = ex_request and ws = 2 and now = 1001 and m = 0] t
  obtain payload where
    p: "snd (broker_step ex_egress_only (Message 2 (Some ex_request) 1001)) = [Send 0 payload]"
    and g: "Map_get (pendingRequests (fst (broker_step ex_egress_only
              (Message 2 (Some ex_request) 1001)))) (field (JObj 0 payload) ''requestId'') =
            Some \<lparr>clientWs = 2, originalRequest = ex_request\<rparr>"
    by blast
  from p have "payload = [(''type'', JStr ''request''), (''requestId'', JStr ''r1''),
              (''method'', JStr ''GET''), (''path'', JStr ''/status''),
              (''headers'', JObj 4 [(''accept'', JStr ''*/*'')])]"
    by (simp add: step sent)
  with g have "Map_get (pendingRequests (fst (broker_step ex_egress_only
      (Message 2 (Some ex_request) 1001)))) (JStr ''r1'') =
      Some \<lparr>clientWs = 2, originalRequest = ex_request\<rparr>"
    by simp
  then show ?thesis using t by (simp add: step sent)
qed

text \<open>
  Connection 2 has sent nothing yet and only the egress executor has registered.
  Its first message is a Request envelope: the request is forwarded to the egress
  connection and recorded as pending.
\<close>

theorem C5_first_message_counterexample:
  "clients ex_egress_only = [] \<and> wsClientId ex_egress_only 2 = JUndefined \<and>
   master ex_egress_only = Some 0 \<and> pendingRequests ex_egress_only = [] \<and>
   snd (broker_step ex_egress_only (Message 2 (Some ex_request) 1001)) =
     [Send 0 [(''type'', JStr ''request''), (''requestId'', JStr ''r1''),
              (''method'', JStr ''GET''), (''path'', JStr ''/status''),
              (''headers'', JObj 4 [(''accept'', JStr ''*/*'')])]] \<and>
   pendingRequests (fst (broker_step ex_egress_only (Message 2 (Some ex_request) 1001))) =
     [(JStr ''r1'', \<lparr>clientWs = 2, originalRequest = ex_request\<rparr>)]"
proof -
  have "field ex_request ''type'' = JStr ''request''"
    by (simp add: ex_request_def)
  then have step: "broker_step ex_egress_only (Message 2 (Some ex_request) 1001) =
      handleRequest ex_egress_only 2 ex_request 1001"
    by (simp add: dispatch_request)
  show ?thesis
    unfolding step
    by (simp add: handleRequest_def ex_egress_only_fields Let_def JSON_stringify_def
        ex_request_def)
qed

text \<open>
  Claim C6 (as amended). In every reachable broker state the pending table holds no
  two entries with the same key, also after any further Request envelope. A Request
  envelope that carries a truthy \<^verbatim>\<open>requestId\<close> is recorded under exactly that ID:
  afterwards the table maps the ID to this request and its sender, whether or not the
  ID was already a key, and every other key is as before. A Request envelope without
  one is recorded under \<^verbatim>\<open>req_<n>_<now>\<close>, where \<^verbatim>\<open>n\<close> is the incremented counter.
\<close>

theorem C6_pending_keys:
  "reachable s \<Longrightarrow>
   distinct (map fst (pendingRequests s)) \<and>
   (field message ''type'' = JStr ''request'' \<and> master s = Some m \<and>
    truthy (field message ''requestId'') \<longrightarrow>
      Map_get (pendingRequests (fst (broker_step s (Message ws (Some message) now)))) =
        (Map_get (pendingRequests s))
          (field message ''requestId'' \<mapsto> \<lparr>clientWs = ws, originalRequest = message\<rparr>) \<and>
      requestId (fst (broker_step s (Message ws (Some message) now))) = requestId s) \<and>
   (field message ''type'' = JStr ''request'' \<and> master s = Some m \<and>
    \<not> truthy (field message ''requestId'') \<longrightarrow>
      Map_get (pendingRequests (fst (broker_step s (Message ws (Some message) now)))) =
        (Map_get (pendingRequests s))
          (JStr (''req_'' @ show_nat (requestId s + 1) @ ''_'' @ show_nat now) \<mapsto>
             \<lparr>clientWs = ws, originalRequest = message\<rparr>) \<and>
      requestId (fst (broker_step s (Message ws (Some message) now))) = requestId s + 1) \<and>
   distinct (map fst (pendingRequests (fst (broker_step s (Message ws (Some message) now)))))"
proof (intro conjI impI)
  assume r: "reachable s"
  show "distinct (map fst (pendingRequests s))"
    using r by (rule reachable_distinct)
  show "distinct (map fst (pendingRequests (fst (broker_step s (Message ws (Some message) now)))))"
    using r by (simp add: reachable_distinct distinct_broker_step)
next
  assume h: "field message ''type'' = JStr ''request'' \<and> master s = Some m \<and>
    truthy (field message ''requestId'')"
  then have step: "broker_step s (Message ws (Some message) now) =
      handleRequest s ws message now"
    by (simp add: dispatch_request)
  show "Map_get (pendingRequests (fst (broker_step s (Message ws (Some message) now)))) =
        (Map_get (pendingRequests s))
          (field message ''requestId'' \<mapsto> \<lparr>clientWs = ws, originalRequest = message\<rparr>)"
    unfolding step using h by (simp add: handleRequest_pending AList.update_conv' fun_eq_iff)
  show "requestId (fst (broker_step s (Message ws (Some message) now))) = requestId s"
    unfolding step using h by (simp add: handleRequest_def Let_def)
next
  assume h: "field message ''type'' = JStr ''request'' \<and> master s = Some m \<and>
    \<not> truthy (field message ''requestId'')"
  then have step: "broker_step s (Message ws (Some message) now) =
      handleRequest s ws message now"
    by (simp add: dispatch_request)
  show "Map_get (pendingRequests (fst (broker_step s (Message ws (Some message) now)))) =
        (Map_get (pendingRequests s))
          (JStr (''req_'' @ show_nat (requestId s + 1) @ ''_'' @ show_nat now) \<mapsto>
             \<lparr>clientWs = ws, originalRequest = message\<rparr>)"
    unfolding step using h by (simp add: handleRequest_pending AList.update_conv' fun_eq_iff)
  show "requestId (fst (broker_step s (Message ws (Some message) now))) = requestId s + 1"
    unfolding step using h by (simp add: handleRequest_def Let_def)
qed

theorem C6_pending_keys_witness:
  "reachable ex_broker \<and>
   field ex_request_dup ''type'' = JStr ''request'' \<and> master ex_broker = Some 0 \<and>
   truthy (field ex_request_dup ''requestId'') \<and>
   distinct (map fst (pendingRequests ex_broker)) \<and>
   Map_get (pendingRequests (fst (broker_step ex_broker (Message 3 (Some ex_request_dup) 1003))))
     (JStr ''r1'') = Some \<lparr>clientWs = 3, originalRequest = ex_request_dup\<rparr> \<and>
   requestId (fst (broker_step ex_broker (Message 3 (Some ex_request_dup) 1003))) =
     requestId ex_broker \<and>
   distinct (map fst (pendingRequests (fst (broker_step ex_broker
     (Message 3 (Some ex_request_dup) 1003))))) \<and>
   field ex_request_noid ''type'' = JStr ''request'' \<and>
   \<not> truthy (field ex_request_noid ''requestId'') \<and>
   Map_get (pendingRequests (fst (broker_step ex_broker (Message 3 (Some ex_request_noid) 1004))))
     (JStr ''req_1_1004'') = Some \<lparr>clientWs = 3, originalRequest = ex_request_noid\<rparr> \<and>
   requestId (fst (broker_step ex_broker (Message 3 (Some ex_request_noid) 1004))) = 1"
proof -
  have h': "field ex_request_noid ''type'' = JStr ''request'' \<and> master ex_broker = Some 0 \<and>
    \<not> truthy (field ex_request_noid ''requestId'')"
    by (simp add: ex_request_noid_def ex_broker_master)
  from C6_pending_keys [OF ex_broker_reachable,
      where message = ex_request_noid and m = 0 and ws = 3 and now = 1004] h'
  have g': "Map_get (pendingRequests (fst (broker_step ex_broker
              (Message 3 (Some ex_request_noid) 1004)))) =
        (Map_get (pendingRequests ex_broker))
          (JStr (''req_'' @ show_nat (requestId ex_broker + 1) @ ''_'' @ show_nat 1004) \<mapsto>
             \<lparr>clientWs = 3, originalRequest = ex_request_noid\<rparr>)"
    and c': "requestId (fst (broker_step ex_broker (Message 3 (Some ex_request_noid) 1004))) =
       requestId ex_broker + 1"
    by blast+
  have generated: "field ex_request_noid ''type'' = JStr ''request'' \<and>
   \<not> truthy (field ex_request_noid ''requestId'') \<and>
   Map_get (pendingRequests (fst (broker_step ex_broker (Message 3 (Some ex_request_noid) 1004))))
     (JStr ''req_1_1004'') = Some \<lparr>clientWs = 3, originalRequest = ex_request_noid\<rparr> \<and>
   requestId (fst (broker_step ex_broker (Message 3 (Some ex_request_noid) 1004))) = 1"
    using h' by (simp add: g' c' ex_broker_requestId show_nat_examples)
  have h: "field ex_request_dup ''type'' = JStr ''request'' \<and> master ex_broker = Some 0 \<and>
    truthy (field ex_request_dup ''requestId'')"
    by (simp add: ex_request_dup_fields ex_broker_master)
  from C6_pending_keys [OF ex_broker_reachable,
      where message = ex_request_dup and m = 0 and ws = 3 and now = 1003] h
  have d: "distinct (map fst (pendingRequests ex_broker))"
    and g: "Map_get (pendingRequests (fst (broker_step ex_broker
              (Message 3 (Some ex_request_dup) 1003)))) =
        (Map_get (pendingRequests ex_broker))
          (field ex_request_dup ''requestId'' \<mapsto>
             \<lparr>clientWs = 3, originalRequest = ex_request_dup\<rparr>)"
    and c: "requestId (fst (broker_step ex_broker (Message 3 (Some ex_request_dup) 1003))) =
       requestId ex_broker"
    and d2: "distinct (map fst (pendingRequests (fst (broker_step ex_broker
       (Message 3 (Some ex_request_dup) 1003)))))"
    by blast+
  have supplied: "Map_get (pendingRequests (fst (broker_step ex_broker
      (Message 3 (Some ex_request_dup) 1003)))) (JStr ''r1'') =
      Some \<lparr>clientWs = 3, originalRequest = ex_request_dup\<rparr>"
    by (simp add: g ex_request_dup_fields)
  show ?thesis
    using h d c d2 ex_broker_reachable supplied generated by (intro conjI) simp_all
qed

text \<open>
  The ID \<^verbatim>\<open>r1\<close> is pending for the request of connection 2. Connection 3 sends a
  different request that carries \<^verbatim>\<open>r1\<close>: the ID is now recorded for the request of
  connection 3, while the first request has not been answered.
\<close>

theorem C6_reused_id_counterexample:
  "reachable ex_broker \<and> master ex_broker = Some 0 \<and>
   Map_get (pendingRequests ex_broker) (JStr ''r1'') =
     Some \<lparr>clientWs = 2, originalRequest = ex_request\<rparr> \<and>
   field ex_request_dup ''type'' = JStr ''request'' \<and>
   field ex_request_dup ''requestId'' = JStr ''r1'' \<and>
   ex_request_dup \<noteq> ex_request \<and>
   pendingRequests (fst (broker_step ex_broker (Message 3 (Some ex_request_dup) 1003))) =
     [(JStr ''r1'', \<lparr>clientWs = 3, originalRequest = ex_request_dup\<rparr>)]"
proof -
  have step: "broker_step ex_broker (Message 3 (Some ex_request_dup) 1003) =
      handleRequest ex_broker 3 ex_request_dup 1003"
    by (simp add: dispatch_request ex_request_dup_fields)
  have "pendingRequests (fst (handleRequest ex_broker 3 ex_request_dup 1003)) =
     [(JStr ''r1'', \<lparr>clientWs = 3, originalRequest = ex_request_dup\<rparr>)]"
    by (simp add: handleRequest_pending [OF ex_broker_master] ex_request_dup_fields
        ex_broker_pending)
  then show ?thesis
    by (simp add: step ex_broker_reachable ex_broker_master ex_broker_pending
        ex_request_dup_fields)
qed

text \<open>
  Claim C7 (as amended). When a connection closes or fails, in a reachable state,
  the pending table afterwards holds no entry owned by that connection, and holds
  every entry owned by another connection as before. If the connection is not the
  registered egress connection and has registered as ingress adapter, the broker
  deletes from the ingress set the entry under the client ID the connection
  registered last; the ingress set then no longer contains the connection when every
  entry that refers to the connection is under that ID.
\<close>

theorem C7_ingress_disconnect:
  "reachable s \<Longrightarrow>
   fst (broker_step s (Close ws)) = handleDisconnection s ws \<and>
   fst (broker_step s (Error ws)) = handleDisconnection s ws \<and>
   pendingRequests (handleDisconnection s ws) =
     filter (\<lambda>e. clientWs (snd e) \<noteq> ws) (pendingRequests s) \<and>
   (\<forall>e \<in> set (pendingRequests (handleDisconnection s ws)). clientWs (snd e) \<noteq> ws) \<and>
   (\<forall>k p. clientWs p \<noteq> ws \<longrightarrow>
      (Map_get (pendingRequests (handleDisconnection s ws)) k = Some p) =
      (Map_get (pendingRequests s) k = Some p)) \<and>
   (master s \<noteq> Some ws \<and> truthy (wsClientId s ws) \<longrightarrow>
      master (handleDisconnection s ws) = master s \<and>
      clients (handleDisconnection s ws) = Map_delete (wsClientId s ws) (clients s)) \<and>
   (master s \<noteq> Some ws \<and> truthy (wsClientId s ws) \<and>
    (\<forall>e \<in> set (clients s). snd e = ws \<longrightarrow> fst e = wsClientId s ws) \<longrightarrow>
      ws \<notin> snd ` set (clients (handleDisconnection s ws)))"
proof -
  assume r: "reachable s"
  then have d: "distinct (map fst (pendingRequests s))"
    by (rule reachable_distinct)
  have p: "pendingRequests (handleDisconnection s ws) =
     filter (\<lambda>e. clientWs (snd e) \<noteq> ws) (pendingRequests s)"
    using d by (rule disconnect_pending)
  have a: "\<forall>e \<in> set (pendingRequests (handleDisconnection s ws)). clientWs (snd e) \<noteq> ws"
    by (simp add: p)
  have b: "\<forall>k p. clientWs p \<noteq> ws \<longrightarrow>
      (Map_get (pendingRequests (handleDisconnection s ws)) k = Some p) =
      (Map_get (pendingRequests s) k = Some p)"
    unfolding p using d by (simp add: map_of_filter_distinct)
  have c: "master s \<noteq> Some ws \<and> truthy (wsClientId s ws) \<longrightarrow>
      master (handleDisconnection s ws) = master s \<and>
      clients (handleDisconnection s ws) = Map_delete (wsClientId s ws) (clients s)"
    by (simp add: disconnect_clients disconnect_master_slot)
  have e: "master s \<noteq> Some ws \<and> truthy (wsClientId s ws) \<and>
    (\<forall>e \<in> set (clients s). snd e = ws \<longrightarrow> fst e = wsClientId s ws) \<longrightarrow>
      ws \<notin> snd ` set (clients (handleDisconnection s ws))"
    by (auto simp: disconnect_clients AList.delete_eq)
  show ?thesis
    using p a b c e by (simp add: step_close step_error)
qed

theorem C7_ingress_disconnect_witness:
  "reachable ex_broker \<and> master ex_broker \<noteq> Some 2 \<and> truthy (wsClientId ex_broker 2) \<and>
   pendingRequests ex_broker = [(JStr ''r1'', \<lparr>clientWs = 2, originalRequest = ex_request\<rparr>)] \<and>
   clients ex_broker = [(JStr ''c1'', 2)] \<and>
   pendingRequests (fst (broker_step ex_broker (Close 2))) = [] \<and>
   clients (fst (broker_step ex_broker (Close 2))) = [] \<and>
   2 \<notin> snd ` set (clients (fst (broker_step ex_broker (Close 2)))) \<and>
   pendingRequests (fst (broker_step ex_broker (Close 3))) =
     [(JStr ''r1'', \<lparr>clientWs = 2, originalRequest = ex_request\<rparr>)]"
proof -
  have h: "master ex_broker \<noteq> Some 2 \<and> truthy (wsClientId ex_broker 2) \<and>
    (\<forall>e \<in> set (clients ex_broker). snd e = 2 \<longrightarrow> fst e = wsClientId ex_broker 2)"
    by (simp add: ex_broker_master ex_broker_clientId ex_broker_clients)
  from C7_ingress_disconnect [OF ex_broker_reachable, of 2] h
  have 1: "fst (broker_step ex_broker (Close 2)) = handleDisconnection ex_broker 2"
    and 2: "pendingRequests (handleDisconnection ex_broker 2) =
      filter (\<lambda>e. clientWs (snd e) \<noteq> 2) (pendingRequests ex_broker)"
    and 3: "clients (handleDisconnection ex_broker 2) =
      Map_delete (wsClientId ex_broker 2) (clients ex_broker)"
    and 4: "2 \<notin> snd ` set (clients (handleDisconnection ex_broker 2))"
    by blast+
  from C7_ingress_disconnect [OF ex_broker_reachable, of 3]
  have 5: "fst (broker_step ex_broker (Close 3)) = handleDisconnection ex_broker 3"
    and 6: "pendingRequests (handleDisconnection ex_broker 3) =
      filter (\<lambda>e. clientWs (snd e) \<noteq> 3) (pendingRequests ex_broker)"
    by blast+
  show ?thesis
    using h 4 ex_broker_reachable
    by (simp add: 1 2 3 5 6 ex_broker_pending ex_broker_clients ex_broker_clientId
        AList.delete_eq)
qed

text \<open>
  Connection 2 has registered as ingress adapter \<^verbatim>\<open>c1\<close> and then as \<^verbatim>\<open>c2\<close>. When
  it closes, only the entry \<^verbatim>\<open>c2\<close> is deleted: the ingress set still contains the
  connection, under \<^verbatim>\<open>c1\<close>.
\<close>

theorem C7_registered_twice_counterexample:
  "reachable ex_twice \<and> master ex_twice = None \<and>
   clients ex_twice = [(JStr ''c1'', 2), (JStr ''c2'', 2)] \<and>
   clients (fst (broker_step ex_twice (Close 2))) = [(JStr ''c1'', 2)] \<and>
   2 \<in> snd ` set (clients (fst (broker_step ex_twice (Close 2))))"
proof -
  have "clients (handleDisconnection ex_twice 2) = [(JStr ''c1'', 2)]"
    by (simp add: handleDisconnection_def Let_def ex_twice_fields AList.delete_eq)
  then show ?thesis
    by (simp add: step_close ex_twice_fields ex_twice_reachable)
qed

text \<open>
  Claim C8 (as amended). The headers of the outbound call contain none of the seven
  keys \<^verbatim>\<open>host\<close>, \<^verbatim>\<open>content-length\<close>, \<^verbatim>\<open>sec-websocket-key\<close>,
  \<^verbatim>\<open>sec-websocket-version\<close>, \<^verbatim>\<open>sec-websocket-extensions\<close>, \<^verbatim>\<open>upgrade\<close> and
  \<^verbatim>\<open>connection\<close>, whatever the inbound headers are; every other key has the value
  it has in the inbound headers; stripping stripped headers changes nothing.
\<close>

theorem C8_strip_headers:
  "map_of (opt_headers (request_options message)) k =
     (if k \<in> {''host'', ''content-length'', ''sec-websocket-key'', ''sec-websocket-version'',
               ''sec-websocket-extensions'', ''upgrade'', ''connection''}
      then None else map_of (own_entries (field message ''headers'')) k) \<and>
   strip_headers (opt_headers (request_options message)) = opt_headers (request_options message) \<and>
   strip_headers (strip_headers hs) = strip_headers hs"
  by (simp only: request_options_def options.simps map_of_strip_headers strip_headers_idem)

theorem C8_strip_headers_witness:
  "opt_headers (request_options ex_post) = [(''accept'', JStr ''*/*'')] \<and>
   map_of (opt_headers (request_options ex_post)) ''host'' = None \<and>
   map_of (opt_headers (request_options ex_post)) ''accept'' = Some (JStr ''*/*'') \<and>
   strip_headers (opt_headers (request_options ex_post)) = [(''accept'', JStr ''*/*'')]"
  using C8_strip_headers [of ex_post "''host''" ex_headers]
    C8_strip_headers [of ex_post "''accept''" ex_headers]
  by (simp add: request_options_def ex_post_def ex_headers_def strip_headers_def
      delete_header_def AList.delete_eq)

text \<open>
  The key \<^verbatim>\<open>connection\<close> is not one of the six keys of the claim, and the outbound
  headers do not keep its inbound value.
\<close>

theorem C8_connection_counterexample:
  "map_of ex_headers ''connection'' = Some (JStr ''keep-alive'') \<and>
   map_of (opt_headers (request_options ex_post)) ''connection'' = None \<and>
   ''connection'' \<notin> {''host'', ''content-length'', ''sec-websocket-key'',
      ''sec-websocket-version'', ''sec-websocket-extensions'', ''upgrade''} \<and>
   field ex_post ''headers'' = JObj 10 ex_headers"
  by (simp add: request_options_def ex_post_def ex_headers_def strip_headers_def
      delete_header_def AList.delete_eq)

text \<open>
  Claim C9, what the code does. For a payload that does not parse, in every broker
  state and on every connection, the state is unchanged and the connection gets one
  reply, the object \<^verbatim>\<open>{error: 'Invalid JSON message'}\<close>. The reply has an \<^verbatim>\<open>error\<close>
  property and no \<^verbatim>\<open>type\<close> property.
\<close>

theorem C9_parse_failure_reply:
  "broker_step s (Message ws None now) =
     (s, [Send ws [(''error'', JStr ''Invalid JSON message'')]]) \<and>
   field (JObj 0 [(''error'', JStr ''Invalid JSON message'')]) ''type'' = JUndefined \<and>
   field (JObj 0 [(''error'', JStr ''Invalid JSON message'')]) ''error'' =
     JStr ''Invalid JSON message''"
  by (simp add: broker_step.simps on_message_def JSON_stringify_def)

text \<open>
  Claim C10. The executor writes a request body only when the method is \<^verbatim>\<open>POST\<close>,
  \<^verbatim>\<open>PUT\<close> or \<^verbatim>\<open>PATCH\<close> (with any other method the body is not written); what it
  writes is the JSON text of the body when the body is an object, and the body itself
  otherwise. A body is written exactly when it is truthy and the method is one of
  the three.
\<close>

theorem C10_request_body:
  "(request_body method body \<noteq> None \<longrightarrow>
      method \<in> {JStr ''POST'', JStr ''PUT'', JStr ''PATCH''}) \<and>
   (method \<notin> {JStr ''POST'', JStr ''PUT'', JStr ''PATCH''} \<longrightarrow>
      request_body method body = None) \<and>
   (request_body method body \<noteq> None \<longrightarrow>
      request_body method body =
        Some (if typeof_object body then JsonText body else Raw body)) \<and>
   (request_body method body \<noteq> None) =
      (truthy body \<and> method \<in> {JStr ''POST'', JStr ''PUT'', JStr ''PATCH''})"
  by (simp add: request_body_def)

theorem C10_request_body_witness:
  "request_body (field ex_post ''method'') (field ex_post ''body'') =
     Some (JsonText (JObj 11 [(''code'', JNum 7)])) \<and>
   request_body (JStr ''PUT'') (JStr ''abc'') = Some (Raw (JStr ''abc'')) \<and>
   JStr ''DELETE'' \<notin> {JStr ''POST'', JStr ''PUT'', JStr ''PATCH''} \<and>
   request_body (JStr ''DELETE'') (field ex_post ''body'') = None"
  using C10_request_body [of "field ex_post ''method''" "field ex_post ''body''"]
    C10_request_body [of "JStr ''PUT''" "JStr ''abc''"]
    C10_request_body [of "JStr ''DELETE''" "field ex_post ''body''"]
  by (simp add: request_body_def ex_post_def)

end
